theory Spec2Isabelle
  imports Complex_Main "HOL-Library.Char_ord" "HOL-Library.List_Lexorder"
begin
section \<open>Amon Hen: values shared by every component\<close>

text \<open>
  Python exceptions are values. Only the classes the modelled code can raise are listed.
  pydantic's \<open>ValidationError\<close> is a subclass of \<open>ValueError\<close>; it is kept apart so that
  the place that raised stays visible, and every handler for \<open>ValueError\<close> catches both.
  \<open>BackendError\<close> stands for whatever an external service raises (the language model,
  the embedding model, the vector database).
\<close>

datatype py_error =
    TypeError | AttributeError | KeyError | IndexError | ValueError | ValidationError
  | JSONDecodeError | IntegrityError | BackendError

text \<open>
  What \<open>json.loads\<close> returns. A Python float is modelled by the real number it denotes
  (rounding, overflow and NaN are outside the model); a dict is an association list
  whose first binding of a key is the dict's value for it.
\<close>

datatype json =
    JNull | JBool bool | JInt int | JFloat real | JStr string
  | JArr "json list" | JObj "(string \<times> json) list"

definition dict_get :: "(string \<times> json) list \<Rightarrow> string \<Rightarrow> json \<Rightarrow> json" where
  "dict_get kvs k dflt = (case map_of kvs k of Some v \<Rightarrow> v | None \<Rightarrow> dflt)"

datatype SourceType = RSS | GDELT | BLUESKY | REDDIT

datatype EntityType = PERSON | ORG | PLACE | EVENT

datatype EntityRole = SUBJECT | TARGET | SOURCE | LOCATION | MENTIONED

datatype ClusterStatus = EMERGING | ACTIVE | FADING | DEAD

fun SourceType_value :: "SourceType \<Rightarrow> string" where
  "SourceType_value RSS = ''rss''"
| "SourceType_value GDELT = ''gdelt''"
| "SourceType_value BLUESKY = ''bluesky''"
| "SourceType_value REDDIT = ''reddit''"

fun EntityType_value :: "EntityType \<Rightarrow> string" where
  "EntityType_value PERSON = ''person''"
| "EntityType_value ORG = ''org''"
| "EntityType_value PLACE = ''place''"
| "EntityType_value EVENT = ''event''"

fun EntityRole_value :: "EntityRole \<Rightarrow> string" where
  "EntityRole_value SUBJECT = ''subject''"
| "EntityRole_value TARGET = ''target''"
| "EntityRole_value SOURCE = ''source''"
| "EntityRole_value LOCATION = ''location''"
| "EntityRole_value MENTIONED = ''mentioned''"

fun ClusterStatus_value :: "ClusterStatus \<Rightarrow> string" where
  "ClusterStatus_value EMERGING = ''emerging''"
| "ClusterStatus_value ACTIVE = ''active''"
| "ClusterStatus_value FADING = ''fading''"
| "ClusterStatus_value DEAD = ''dead''"

text \<open>
  Calling an enum class on a value looks the member up by value; anything that is not the
  string of a member raises \<open>ValueError\<close> (here: \<open>None\<close>).
\<close>

definition SourceType_of :: "json \<Rightarrow> SourceType option" where
  "SourceType_of v = (if v = JStr ''rss'' then Some RSS else if v = JStr ''gdelt'' then Some GDELT
     else if v = JStr ''bluesky'' then Some BLUESKY else if v = JStr ''reddit'' then Some REDDIT
     else None)"

definition EntityType_of :: "json \<Rightarrow> EntityType option" where
  "EntityType_of v = (if v = JStr ''person'' then Some PERSON else if v = JStr ''org'' then Some ORG
     else if v = JStr ''place'' then Some PLACE else if v = JStr ''event'' then Some EVENT
     else None)"

definition EntityRole_of :: "json \<Rightarrow> EntityRole option" where
  "EntityRole_of v = (if v = JStr ''subject'' then Some SUBJECT
     else if v = JStr ''target'' then Some TARGET
     else if v = JStr ''source'' then Some SOURCE
     else if v = JStr ''location'' then Some LOCATION
     else if v = JStr ''mentioned'' then Some MENTIONED
     else None)"

definition ClusterStatus_of :: "string \<Rightarrow> ClusterStatus option" where
  "ClusterStatus_of v = (if v = ''emerging'' then Some EMERGING
     else if v = ''active'' then Some ACTIVE
     else if v = ''fading'' then Some FADING
     else if v = ''dead'' then Some DEAD
     else None)"

record Entity =
  name :: string
  entity_type :: EntityType
  role :: EntityRole
  aliases :: "string list"

record EnrichmentResult =
  er_summary :: string
  er_entities :: "Entity list"
  er_claims :: "string list"
  er_framing :: string
  er_sentiment :: real
  er_topic_tags :: "string list"

text \<open>
  pydantic (version 2, lax mode) on values that come from JSON: a \<open>str\<close> field takes a
  string only, a \<open>list[str]\<close> field a list of strings only.
\<close>

fun validate_str :: "json \<Rightarrow> py_error + string" where
  "validate_str (JStr s) = Inr s"
| "validate_str _ = Inl ValidationError"

fun is_JStr :: "json \<Rightarrow> bool" where
  "is_JStr (JStr s) = True"
| "is_JStr _ = False"

fun the_JStr :: "json \<Rightarrow> string" where
  "the_JStr (JStr s) = s"
| "the_JStr _ = []"

fun validate_str_list :: "json \<Rightarrow> py_error + string list" where
  "validate_str_list (JArr xs) =
     (if list_all is_JStr xs then Inr (map the_JStr xs) else Inl ValidationError)"
| "validate_str_list _ = Inl ValidationError"

section \<open>Enrichment: parsing the reply of the language model (\<open>enrichment/llm.py\<close>)\<close>

text \<open>
  \<open>_strip_code_fences\<close>. \<open>isspace\<close> and \<open>isword\<close> are Python's character classes
  (\<open>str.strip\<close> and the regular expression's \<open>\w\<close>); the pattern \<open>^```\w*\n?\<close> can only
  match at the start of the text.
\<close>

definition strip :: "(char \<Rightarrow> bool) \<Rightarrow> string \<Rightarrow> string" where
  "strip isspace s = rev (dropWhile isspace (rev (dropWhile isspace s)))"

definition fence :: string where
  "fence = replicate 3 (CHR 0x60)"

definition strip_code_fences :: "(char \<Rightarrow> bool) \<Rightarrow> (char \<Rightarrow> bool) \<Rightarrow> string \<Rightarrow> string" where
  "strip_code_fences isspace isword raw =
     (let text1 = strip isspace raw;
          text2 = (if take 3 text1 = fence
                   then (case dropWhile isword (drop 3 text1) of
                           [] \<Rightarrow> []
                         | c # r \<Rightarrow> if c = CHR 0x0A then r else c # r)
                   else text1);
          text3 = (if 3 \<le> length text2 \<and> drop (length text2 - 3) text2 = fence
                   then take (length text2 - 3) text2 else text2)
      in strip isspace text3)"

text \<open>
  Iterating a JSON value with \<open>for e in ...\<close>: a list yields its elements, a string its
  characters, a dict its keys; anything else is not iterable.
\<close>

fun py_iter :: "json \<Rightarrow> py_error + json list" where
  "py_iter (JArr xs) = Inr xs"
| "py_iter (JStr s) = Inr (map (\<lambda>c. JStr [c]) s)"
| "py_iter (JObj kvs) = Inr (map (\<lambda>kv. JStr (fst kv)) kvs)"
| "py_iter _ = Inl TypeError"

text \<open>
  \<open>float(v)\<close>; \<open>float_of_str\<close> is Python's parser of a float from a string
  (\<open>None\<close> where it raises \<open>ValueError\<close>).
\<close>

fun py_float :: "(string \<Rightarrow> real option) \<Rightarrow> json \<Rightarrow> py_error + real" where
  "py_float fos (JInt n) = Inr (of_int n)"
| "py_float fos (JFloat x) = Inr x"
| "py_float fos (JBool b) = Inr (if b then 1 else 0)"
| "py_float fos (JStr s) = (case fos s of Some x \<Rightarrow> Inr x | None \<Rightarrow> Inl ValueError)"
| "py_float fos _ = Inl TypeError"

text \<open>
  The body of the \<open>try\<close> in the entity loop: the keyword arguments are evaluated left to
  right (\<open>e["name"]\<close> first, which needs a dict), then \<open>Entity(...)\<close> validates.
\<close>

fun build_entity :: "json \<Rightarrow> py_error + Entity" where
  "build_entity (JObj kvs) =
     (case map_of kvs ''name'' of
        None \<Rightarrow> Inl KeyError
      | Some n \<Rightarrow>
         (case EntityType_of (dict_get kvs ''type'' (JStr ''person'')) of
            None \<Rightarrow> Inl ValueError
          | Some t \<Rightarrow>
             (case EntityRole_of (dict_get kvs ''role'' (JStr ''mentioned'')) of
                None \<Rightarrow> Inl ValueError
              | Some r \<Rightarrow>
                 (case (validate_str n, validate_str_list (dict_get kvs ''aliases'' (JArr []))) of
                    (Inr n', Inr al) \<Rightarrow>
                      Inr \<lparr>name = n', entity_type = t, role = r, aliases = al\<rparr>
                  | _ \<Rightarrow> Inl ValidationError))))"
| "build_entity _ = Inl TypeError"

text \<open>\<open>except (ValueError, KeyError): continue\<close>\<close>

fun entity_error_caught :: "py_error \<Rightarrow> bool" where
  "entity_error_caught ValueError = True"
| "entity_error_caught ValidationError = True"
| "entity_error_caught KeyError = True"
| "entity_error_caught _ = False"

fun entity_loop :: "json list \<Rightarrow> Entity list \<Rightarrow> py_error + Entity list" where
  "entity_loop [] entities = Inr entities"
| "entity_loop (e # es) entities =
     (case build_entity e of
        Inr ent \<Rightarrow> entity_loop es (entities @ [ent])
      | Inl err \<Rightarrow> if entity_error_caught err then entity_loop es entities else Inl err)"

text \<open>
  \<open>_parse_enrichment_json\<close> from \<open>data = json.loads(cleaned)\<close> on: \<open>data.get\<close> needs a
  dict, the entity loop runs, the sentiment is converted and clamped, and
  \<open>EnrichmentResult(...)\<close> validates the remaining fields.
\<close>

fun parse_enrichment_data :: "(string \<Rightarrow> real option) \<Rightarrow> json \<Rightarrow> py_error + EnrichmentResult" where
  "parse_enrichment_data fos (JObj data) =
     (case py_iter (dict_get data ''entities'' (JArr [])) of
        Inl err \<Rightarrow> Inl err
      | Inr es \<Rightarrow>
         (case entity_loop es [] of
            Inl err \<Rightarrow> Inl err
          | Inr entities \<Rightarrow>
             (case py_float fos (dict_get data ''sentiment'' (JFloat 0)) of
                Inl err \<Rightarrow> Inl err
              | Inr sentiment0 \<Rightarrow>
                 (let sentiment = max (- 1) (min 1 sentiment0) in
                  (case (validate_str (dict_get data ''summary'' (JStr [])),
                         validate_str_list (dict_get data ''claims'' (JArr [])),
                         validate_str (dict_get data ''framing'' (JStr [])),
                         validate_str_list (dict_get data ''topic_tags'' (JArr []))) of
                     (Inr s, Inr cl, Inr fr, Inr tt) \<Rightarrow>
                        Inr \<lparr>er_summary = s, er_entities = entities, er_claims = cl,
                             er_framing = fr, er_sentiment = sentiment, er_topic_tags = tt\<rparr>
                   | _ \<Rightarrow> Inl ValidationError)))))"
| "parse_enrichment_data fos _ = Inl AttributeError"

text \<open>
  The whole function: \<open>json_loads\<close> is the library's parser (\<open>Inl JSONDecodeError\<close> on
  text that is not JSON).
\<close>

definition parse_enrichment_json ::
  "(char \<Rightarrow> bool) \<Rightarrow> (char \<Rightarrow> bool) \<Rightarrow> (string \<Rightarrow> py_error + json) \<Rightarrow> (string \<Rightarrow> real option)
     \<Rightarrow> string \<Rightarrow> py_error + EnrichmentResult" where
  "parse_enrichment_json isspace isword json_loads fos raw =
     (case json_loads (strip_code_fences isspace isword raw) of
        Inl err \<Rightarrow> Inl err
      | Inr data \<Rightarrow> parse_enrichment_data fos data)"


section \<open>Dates and their text form\<close>

text \<open>
  Every datetime of the system is timezone-aware UTC (\<open>datetime.now(timezone.utc)\<close>), so
  the offset is not a field. \<open>valid_datetime\<close> is what the constructor of \<open>datetime\<close>
  accepts.
\<close>

record datetime =
  year :: nat
  month :: nat
  day :: nat
  hour :: nat
  minute :: nat
  second :: nat
  microsecond :: nat

definition is_leap :: "nat \<Rightarrow> bool" where
  "is_leap y = (y mod 4 = 0 \<and> (y mod 100 \<noteq> 0 \<or> y mod 400 = 0))"

definition days_in_month :: "nat \<Rightarrow> nat \<Rightarrow> nat" where
  "days_in_month y m =
     (if m = 2 then (if is_leap y then 29 else 28)
      else if m = 4 \<or> m = 6 \<or> m = 9 \<or> m = 11 then 30 else 31)"

definition valid_datetime :: "datetime \<Rightarrow> bool" where
  "valid_datetime d =
     (1 \<le> year d \<and> year d \<le> 9999 \<and> 1 \<le> month d \<and> month d \<le> 12
      \<and> 1 \<le> day d \<and> day d \<le> days_in_month (year d) (month d)
      \<and> hour d < 24 \<and> minute d < 60 \<and> second d < 60 \<and> microsecond d < 1000000)"

text \<open>The fields of a datetime from the most to the least significant: their order is time.\<close>

definition dt_key :: "datetime \<Rightarrow> nat list" where
  "dt_key d = [year d, month d, day d, hour d, minute d, second d, microsecond d]"

text \<open>\<open>zpad k n\<close> is the format \<open>%0kd\<close> on a number below \<open>10 ^ k\<close>.\<close>

definition digit_char :: "nat \<Rightarrow> char" where
  "digit_char n = char_of (48 + n mod 10)"

fun zpad :: "nat \<Rightarrow> nat \<Rightarrow> string" where
  "zpad 0 n = []"
| "zpad (Suc k) n = zpad k (n div 10) @ [digit_char (n mod 10)]"

text \<open>
  \<open>datetime.isoformat()\<close> of an aware UTC datetime: the fraction is printed only when the
  microsecond is not zero.
\<close>

definition isoformat :: "datetime \<Rightarrow> string" where
  "isoformat d =
     zpad 4 (year d) @ ''-'' @ zpad 2 (month d) @ ''-'' @ zpad 2 (day d) @ ''T''
     @ zpad 2 (hour d) @ '':'' @ zpad 2 (minute d) @ '':'' @ zpad 2 (second d)
     @ (if microsecond d = 0 then [] else ''.'' @ zpad 6 (microsecond d)) @ ''+00:00''"

definition digit_val :: "char \<Rightarrow> nat option" where
  "digit_val c = (let n = (of_char c :: nat) in if 48 \<le> n \<and> n \<le> 57 then Some (n - 48) else None)"

fun digits_val :: "string \<Rightarrow> nat \<Rightarrow> nat option" where
  "digits_val [] acc = Some acc"
| "digits_val (c # cs) acc =
     (case digit_val c of None \<Rightarrow> None | Some v \<Rightarrow> digits_val cs (acc * 10 + v))"

definition num_field :: "string \<Rightarrow> nat \<Rightarrow> nat \<Rightarrow> nat option" where
  "num_field s pos len = digits_val (take len (drop pos s)) 0"

text \<open>
  \<open>datetime.fromisoformat\<close> on the texts \<open>isoformat\<close> writes for UTC datetimes, the only
  ones the tables hold. Python reads further ISO 8601 forms and other offsets; here they
  are \<open>ValueError\<close>.
\<close>

definition fromisoformat :: "string \<Rightarrow> py_error + datetime" where
  "fromisoformat s =
     (if (length s = 25 \<or> (length s = 32 \<and> s ! 19 = CHR ''.''))
         \<and> s ! 4 = CHR ''-'' \<and> s ! 7 = CHR ''-'' \<and> s ! 10 = CHR ''T''
         \<and> s ! 13 = CHR '':'' \<and> s ! 16 = CHR '':'' \<and> drop (length s - 6) s = ''+00:00''
      then (case (num_field s 0 4, num_field s 5 2, num_field s 8 2, num_field s 11 2,
                  num_field s 14 2, num_field s 17 2,
                  if length s = 25 then Some 0 else num_field s 20 6) of
              (Some y, Some mo, Some dd, Some h, Some mi, Some se, Some us) \<Rightarrow>
                (let dt = \<lparr>year = y, month = mo, day = dd, hour = h, minute = mi,
                           second = se, microsecond = us\<rparr>
                 in if valid_datetime dt then Inr dt else Inl ValueError)
            | _ \<Rightarrow> Inl ValueError)
      else Inl ValueError)"

definition dt_to_str :: "datetime \<Rightarrow> string" where
  "dt_to_str dt = isoformat dt"

definition str_to_dt :: "string \<Rightarrow> py_error + datetime" where
  "str_to_dt s = fromisoformat s"

section \<open>The models (\<open>models.py\<close>)\<close>

text \<open>
  The pydantic classes as records. Field \<open>id\<close> is \<open>item_id\<close> or \<open>nc_id\<close>; the fields of
  \<open>RawItem\<close>, \<open>NarrativeCluster\<close> and \<open>CostLogEntry\<close> carry a prefix because several
  classes share field names.
\<close>

record RawItem =
  raw_id :: string
  raw_source_type :: SourceType
  raw_source_name :: string
  raw_source_url :: string
  raw_title :: "string option"
  raw_content_text :: string
  raw_author :: "string option"
  raw_published_at :: datetime
  raw_ingested_at :: datetime
  raw_language :: string
  raw_metadata :: json

record EnrichedItem =
  item_id :: string
  source_type :: SourceType
  source_name :: string
  source_url :: string
  title :: "string option"
  published_at :: datetime
  ingested_at :: datetime
  language :: string
  summary :: string
  entities :: "Entity list"
  claims :: "string list"
  framing :: string
  sentiment :: real
  topic_tags :: "string list"
  embedding_id :: string
  embedding_model :: string
  cluster_id :: "string option"
  cluster_label :: "string option"
  enrichment_model :: string
  enrichment_cost_usd :: real

text \<open>What pydantic has checked on every constructed \<open>EnrichedItem\<close>.\<close>

definition valid_item :: "EnrichedItem \<Rightarrow> bool" where
  "valid_item i = (- 1 \<le> sentiment i \<and> sentiment i \<le> 1
     \<and> valid_datetime (published_at i) \<and> valid_datetime (ingested_at i))"

record NarrativeCluster =
  nc_id :: string
  nc_label :: string
  nc_summary :: string
  nc_item_count :: int
  nc_first_seen :: datetime
  nc_last_updated :: datetime
  nc_centroid :: "real list"
  nc_source_distribution :: "(string \<times> int) list"
  nc_sentiment_distribution :: "(string \<times> int) list"
  nc_key_entities :: "string list"
  nc_key_claims :: "string list"
  nc_status :: ClusterStatus
  nc_parent_cluster_id :: "string option"

record CostLogEntry =
  ce_item_id :: string
  ce_model :: string
  ce_input_tokens :: int
  ce_output_tokens :: int
  ce_cost_usd :: real
  ce_timestamp :: datetime


section \<open>The metadata store (\<open>storage/sqlite.py\<close>)\<close>

text \<open>
  One record per table row, the columns in the order of \<open>SCHEMA\<close>. A TEXT column is a
  string (an option where the code can write NULL), a REAL column a real, an INTEGER column
  an integer. A column written with \<open>json.dumps\<close> and read with \<open>json.loads\<close> holds the
  JSON value itself: the two library calls are inverse on what \<open>json.dumps\<close> accepts.
  A table is the list of its rows in rowid order.
\<close>

record ItemRow =
  row_id :: string
  row_source_type :: string
  row_source_name :: string
  row_source_url :: string
  row_title :: "string option"
  row_published_at :: string
  row_ingested_at :: string
  row_language :: string
  row_summary :: string
  row_entities_json :: json
  row_claims_json :: json
  row_framing :: string
  row_sentiment :: real
  row_topic_tags_json :: json
  row_embedding_id :: string
  row_embedding_model :: string
  row_cluster_id :: "string option"
  row_cluster_label :: "string option"
  row_enrichment_model :: string
  row_enrichment_cost_usd :: real
  row_archived :: int

record ClusterRow =
  crow_id :: string
  crow_label :: string
  crow_summary :: string
  crow_item_count :: int
  crow_first_seen :: string
  crow_last_updated :: string
  crow_centroid_json :: json
  crow_source_distribution_json :: json
  crow_sentiment_distribution_json :: json
  crow_key_entities_json :: json
  crow_key_claims_json :: json
  crow_status :: string
  crow_parent_cluster_id :: "string option"

record MembershipRow =
  mrow_item_id :: string
  mrow_cluster_id :: string
  mrow_assigned_at :: string

record DigestRow =
  drow_id :: string
  drow_generated_at :: string
  drow_content :: string
  drow_cluster_count :: int
  drow_item_count :: int
  drow_model :: string

record SourceStatusRow =
  srow_source_name :: string
  srow_source_type :: string
  srow_last_fetch_at :: "string option"
  srow_last_success_at :: "string option"
  srow_items_fetched :: int
  srow_error_count :: int
  srow_last_error :: "string option"

record CostRow =
  lrow_id :: nat
  lrow_item_id :: string
  lrow_model :: string
  lrow_input_tokens :: int
  lrow_output_tokens :: int
  lrow_cost_usd :: real
  lrow_timestamp :: string

record SQLiteStore =
  items :: "ItemRow list"
  clusters :: "ClusterRow list"
  cluster_membership :: "MembershipRow list"
  digests :: "DigestRow list"
  source_status :: "SourceStatusRow list"
  cost_log :: "CostRow list"

definition empty_store :: SQLiteStore where
  "empty_store = \<lparr>items = [], clusters = [], cluster_membership = [], digests = [],
     source_status = [], cost_log = []\<rparr>"

text \<open>
  The key constraints of \<open>SCHEMA\<close> on the tables of the model: \<open>items.id\<close> and
  \<open>clusters.id\<close> are primary keys, \<open>items.source_url\<close> is UNIQUE.
\<close>

definition schema_ok :: "SQLiteStore \<Rightarrow> bool" where
  "schema_ok db = (distinct (map row_id (items db)) \<and> distinct (map row_source_url (items db))
     \<and> distinct (map crow_id (clusters db)))"

text \<open>A comprehension or loop whose body can raise stops at the first exception.\<close>

fun traverse :: "('a \<Rightarrow> py_error + 'b) \<Rightarrow> 'a list \<Rightarrow> py_error + 'b list" where
  "traverse f [] = Inr []"
| "traverse f (x # xs) =
     (case f x of
        Inl err \<Rightarrow> Inl err
      | Inr y \<Rightarrow> (case traverse f xs of Inl err \<Rightarrow> Inl err | Inr ys \<Rightarrow> Inr (y # ys)))"

subsection \<open>Items\<close>

text \<open>\<open>e.model_dump()\<close> passed through \<open>json.dumps\<close>: an enum member is written as its value.\<close>

definition entity_dump :: "Entity \<Rightarrow> json" where
  "entity_dump e = JObj [(''name'', JStr (name e)),
     (''type'', JStr (EntityType_value (entity_type e))),
     (''role'', JStr (EntityRole_value (role e))),
     (''aliases'', JArr (map JStr (aliases e)))]"

definition item_row :: "EnrichedItem \<Rightarrow> ItemRow" where
  "item_row item = \<lparr>
     row_id = item_id item,
     row_source_type = SourceType_value (source_type item),
     row_source_name = source_name item,
     row_source_url = source_url item,
     row_title = title item,
     row_published_at = dt_to_str (published_at item),
     row_ingested_at = dt_to_str (ingested_at item),
     row_language = language item,
     row_summary = summary item,
     row_entities_json = JArr (map entity_dump (entities item)),
     row_claims_json = JArr (map JStr (claims item)),
     row_framing = framing item,
     row_sentiment = sentiment item,
     row_topic_tags_json = JArr (map JStr (topic_tags item)),
     row_embedding_id = embedding_id item,
     row_embedding_model = embedding_model item,
     row_cluster_id = cluster_id item,
     row_cluster_label = cluster_label item,
     row_enrichment_model = enrichment_model item,
     row_enrichment_cost_usd = enrichment_cost_usd item,
     row_archived = 0\<rparr>"

text \<open>
  A write that can raise returns the exception, if any, and the store after the call:
  \<open>_connect\<close> rolls the transaction back before it re-raises, so the store after an
  exception is the store before.

  \<open>insert_item\<close>: the INSERT violates \<open>id TEXT PRIMARY KEY\<close> or
  \<open>source_url TEXT NOT NULL UNIQUE\<close> when a row has the id or the URL, and
  \<open>sqlite3.IntegrityError\<close> is raised. Column \<open>archived\<close> takes its default.
\<close>

definition insert_item :: "SQLiteStore \<Rightarrow> EnrichedItem \<Rightarrow> py_error option \<times> SQLiteStore" where
  "insert_item db item =
     (if list_ex (\<lambda>r. row_id r = item_id item \<or> row_source_url r = source_url item) (items db)
      then (Some IntegrityError, db)
      else (None, db\<lparr>items := items db @ [item_row item]\<rparr>))"

text \<open>The element of the comprehension in \<open>_row_to_item\<close>: every key but \<open>aliases\<close> is subscripted.\<close>

fun row_entity :: "json \<Rightarrow> py_error + Entity" where
  "row_entity (JObj kvs) =
     (case map_of kvs ''name'' of
        None \<Rightarrow> Inl KeyError
      | Some n \<Rightarrow>
         (case map_of kvs ''type'' of
            None \<Rightarrow> Inl KeyError
          | Some tv \<Rightarrow>
             (case EntityType_of tv of
                None \<Rightarrow> Inl ValueError
              | Some t \<Rightarrow>
                 (case map_of kvs ''role'' of
                    None \<Rightarrow> Inl KeyError
                  | Some rv \<Rightarrow>
                     (case EntityRole_of rv of
                        None \<Rightarrow> Inl ValueError
                      | Some r \<Rightarrow>
                         (case (validate_str n,
                                validate_str_list (dict_get kvs ''aliases'' (JArr []))) of
                            (Inr n', Inr al) \<Rightarrow>
                              Inr \<lparr>name = n', entity_type = t, role = r, aliases = al\<rparr>
                          | _ \<Rightarrow> Inl ValidationError))))))"
| "row_entity _ = Inl TypeError"

definition row_to_item :: "ItemRow \<Rightarrow> py_error + EnrichedItem" where
  "row_to_item row =
     (case py_iter (row_entities_json row) of
        Inl err \<Rightarrow> Inl err
      | Inr entities_raw \<Rightarrow>
     (case traverse row_entity entities_raw of
        Inl err \<Rightarrow> Inl err
      | Inr ents \<Rightarrow>
     (case SourceType_of (JStr (row_source_type row)) of
        None \<Rightarrow> Inl ValueError
      | Some st \<Rightarrow>
     (case str_to_dt (row_published_at row) of
        Inl err \<Rightarrow> Inl err
      | Inr pub \<Rightarrow>
     (case str_to_dt (row_ingested_at row) of
        Inl err \<Rightarrow> Inl err
      | Inr ing \<Rightarrow>
     (case (validate_str_list (row_claims_json row),
            validate_str_list (row_topic_tags_json row)) of
        (Inr cl, Inr tt) \<Rightarrow>
          (if - 1 \<le> row_sentiment row \<and> row_sentiment row \<le> 1
           then Inr \<lparr>
             item_id = row_id row,
             source_type = st,
             source_name = row_source_name row,
             source_url = row_source_url row,
             title = row_title row,
             published_at = pub,
             ingested_at = ing,
             language = row_language row,
             summary = row_summary row,
             entities = ents,
             claims = cl,
             framing = row_framing row,
             sentiment = row_sentiment row,
             topic_tags = tt,
             embedding_id = row_embedding_id row,
             embedding_model = row_embedding_model row,
             cluster_id = row_cluster_id row,
             cluster_label = row_cluster_label row,
             enrichment_model = row_enrichment_model row,
             enrichment_cost_usd = row_enrichment_cost_usd row\<rparr>
           else Inl ValidationError)
      | _ \<Rightarrow> Inl ValidationError))))))"

definition get_item :: "SQLiteStore \<Rightarrow> string \<Rightarrow> py_error + EnrichedItem option" where
  "get_item db iid =
     (case find (\<lambda>r. row_id r = iid) (items db) of
        None \<Rightarrow> Inr None
      | Some row \<Rightarrow> (case row_to_item row of Inl err \<Rightarrow> Inl err | Inr i \<Rightarrow> Inr (Some i)))"

text \<open>
  \<open>ORDER BY published_at DESC\<close> compares the stored texts; SQL leaves the order of equal keys
  open, here it is the reverse of the ascending stable sort. \<open>LIMIT\<close> with a negative
  number is no limit.
\<close>

definition order_by_published_at_desc :: "ItemRow list \<Rightarrow> ItemRow list" where
  "order_by_published_at_desc rows = rev (sort_key row_published_at rows)"

definition sql_limit :: "int \<Rightarrow> 'a list \<Rightarrow> 'a list" where
  "sql_limit n rows = (if n < 0 then rows else take (nat n) rows)"

definition get_items ::
  "SQLiteStore \<Rightarrow> datetime option \<Rightarrow> int \<Rightarrow> string option \<Rightarrow> py_error + EnrichedItem list" where
  "get_items db since limit stype =
     (let rows0 = filter (\<lambda>r. row_archived r = 0) (items db);
          rows1 = (case since of
                     None \<Rightarrow> rows0
                   | Some t \<Rightarrow> filter (\<lambda>r. dt_to_str t \<le> row_published_at r) rows0);
          rows2 = (case stype of
                     None \<Rightarrow> rows1
                   | Some st \<Rightarrow> if st = [] then rows1
                                else filter (\<lambda>r. row_source_type r = st) rows1)
      in traverse row_to_item (sql_limit limit (order_by_published_at_desc rows2)))"

definition item_url_exists :: "SQLiteStore \<Rightarrow> string \<Rightarrow> bool" where
  "item_url_exists db url = list_ex (\<lambda>r. row_source_url r = url) (items db)"

definition update_item_cluster :: "SQLiteStore \<Rightarrow> string \<Rightarrow> string \<Rightarrow> string \<Rightarrow> SQLiteStore" where
  "update_item_cluster db iid cid clabel =
     db\<lparr>items := map (\<lambda>r. if row_id r = iid
                           then r\<lparr>row_cluster_id := Some cid, row_cluster_label := Some clabel\<rparr>
                           else r) (items db)\<rparr>"

definition get_items_by_cluster :: "SQLiteStore \<Rightarrow> string \<Rightarrow> py_error + EnrichedItem list" where
  "get_items_by_cluster db cid =
     traverse row_to_item (order_by_published_at_desc
       (filter (\<lambda>r. row_cluster_id r = Some cid \<and> row_archived r = 0) (items db)))"

definition archive_old_items :: "SQLiteStore \<Rightarrow> datetime \<Rightarrow> SQLiteStore \<times> nat" where
  "archive_old_items db before =
     (let hit = (\<lambda>r. row_published_at r < dt_to_str before \<and> row_archived r = 0)
      in (db\<lparr>items := map (\<lambda>r. if hit r then r\<lparr>row_archived := 1\<rparr> else r) (items db)\<rparr>,
          length (filter hit (items db))))"


subsection \<open>Clusters and memberships\<close>

definition cluster_row :: "NarrativeCluster \<Rightarrow> ClusterRow" where
  "cluster_row c = \<lparr>
     crow_id = nc_id c,
     crow_label = nc_label c,
     crow_summary = nc_summary c,
     crow_item_count = nc_item_count c,
     crow_first_seen = dt_to_str (nc_first_seen c),
     crow_last_updated = dt_to_str (nc_last_updated c),
     crow_centroid_json = JArr (map JFloat (nc_centroid c)),
     crow_source_distribution_json = JObj (map (\<lambda>kv. (fst kv, JInt (snd kv))) (nc_source_distribution c)),
     crow_sentiment_distribution_json = JObj (map (\<lambda>kv. (fst kv, JInt (snd kv))) (nc_sentiment_distribution c)),
     crow_key_entities_json = JArr (map JStr (nc_key_entities c)),
     crow_key_claims_json = JArr (map JStr (nc_key_claims c)),
     crow_status = ClusterStatus_value (nc_status c),
     crow_parent_cluster_id = nc_parent_cluster_id c\<rparr>"

text \<open>
  \<open>INSERT OR REPLACE\<close>: a row with the same primary key is deleted, the new row is added.
\<close>

definition upsert_cluster :: "SQLiteStore \<Rightarrow> NarrativeCluster \<Rightarrow> SQLiteStore" where
  "upsert_cluster db c =
     db\<lparr>clusters := filter (\<lambda>r. crow_id r \<noteq> nc_id c) (clusters db) @ [cluster_row c]\<rparr>"

text \<open>
  The validators of \<open>NarrativeCluster\<close> on the JSON that \<open>upsert_cluster\<close> wrote; pydantic's
  further coercions (a numeric string into a number) are not modelled and are rejected here.
\<close>

fun validate_float :: "json \<Rightarrow> py_error + real" where
  "validate_float (JFloat x) = Inr x"
| "validate_float (JInt n) = Inr (of_int n)"
| "validate_float _ = Inl ValidationError"

fun validate_float_list :: "json \<Rightarrow> py_error + real list" where
  "validate_float_list (JArr xs) =
     (case traverse validate_float xs of Inl err \<Rightarrow> Inl ValidationError | Inr ys \<Rightarrow> Inr ys)"
| "validate_float_list _ = Inl ValidationError"

fun validate_count :: "string \<times> json \<Rightarrow> py_error + string \<times> int" where
  "validate_count (k, JInt n) = Inr (k, n)"
| "validate_count _ = Inl ValidationError"

fun validate_count_dict :: "json \<Rightarrow> py_error + (string \<times> int) list" where
  "validate_count_dict (JObj kvs) =
     (case traverse validate_count kvs of Inl err \<Rightarrow> Inl ValidationError | Inr ys \<Rightarrow> Inr ys)"
| "validate_count_dict _ = Inl ValidationError"

definition row_to_cluster :: "ClusterRow \<Rightarrow> py_error + NarrativeCluster" where
  "row_to_cluster row =
     (case str_to_dt (crow_first_seen row) of
        Inl err \<Rightarrow> Inl err
      | Inr fs \<Rightarrow>
     (case str_to_dt (crow_last_updated row) of
        Inl err \<Rightarrow> Inl err
      | Inr lu \<Rightarrow>
     (case ClusterStatus_of (crow_status row) of
        None \<Rightarrow> Inl ValueError
      | Some st \<Rightarrow>
     (case (validate_float_list (crow_centroid_json row),
            validate_count_dict (crow_source_distribution_json row),
            validate_count_dict (crow_sentiment_distribution_json row),
            validate_str_list (crow_key_entities_json row),
            validate_str_list (crow_key_claims_json row)) of
        (Inr ce, Inr sd, Inr sn, Inr ke, Inr kc) \<Rightarrow>
          Inr \<lparr>
            nc_id = crow_id row,
            nc_label = crow_label row,
            nc_summary = crow_summary row,
            nc_item_count = crow_item_count row,
            nc_first_seen = fs,
            nc_last_updated = lu,
            nc_centroid = ce,
            nc_source_distribution = sd,
            nc_sentiment_distribution = sn,
            nc_key_entities = ke,
            nc_key_claims = kc,
            nc_status = st,
            nc_parent_cluster_id = crow_parent_cluster_id row\<rparr>
      | _ \<Rightarrow> Inl ValidationError))))"

definition get_cluster :: "SQLiteStore \<Rightarrow> string \<Rightarrow> py_error + NarrativeCluster option" where
  "get_cluster db cid =
     (case find (\<lambda>r. crow_id r = cid) (clusters db) of
        None \<Rightarrow> Inr None
      | Some row \<Rightarrow> (case row_to_cluster row of Inl err \<Rightarrow> Inl err | Inr c \<Rightarrow> Inr (Some c)))"

definition get_active_clusters :: "SQLiteStore \<Rightarrow> py_error + NarrativeCluster list" where
  "get_active_clusters db =
     traverse row_to_cluster (rev (sort_key crow_item_count
       (filter (\<lambda>r. crow_status r = ''emerging'' \<or> crow_status r = ''active'') (clusters db))))"

definition update_cluster_status :: "SQLiteStore \<Rightarrow> string \<Rightarrow> string \<Rightarrow> SQLiteStore" where
  "update_cluster_status db cid status =
     db\<lparr>clusters := map (\<lambda>r. if crow_id r = cid then r\<lparr>crow_status := status\<rparr> else r) (clusters db)\<rparr>"

text \<open>
  \<open>set_cluster_membership\<close>: the connection runs with \<open>PRAGMA foreign_keys=ON\<close>, so the row
  must reference an item and a cluster that exist; the primary key is the pair.
  \<open>now\<close> is \<open>datetime.now(timezone.utc)\<close>.
\<close>

definition set_cluster_membership ::
  "SQLiteStore \<Rightarrow> datetime \<Rightarrow> string \<Rightarrow> string \<Rightarrow> py_error option \<times> SQLiteStore" where
  "set_cluster_membership db now iid cid =
     (if list_ex (\<lambda>r. row_id r = iid) (items db) \<and> list_ex (\<lambda>r. crow_id r = cid) (clusters db)
      then (None, db\<lparr>cluster_membership :=
                  filter (\<lambda>m. \<not> (mrow_item_id m = iid \<and> mrow_cluster_id m = cid)) (cluster_membership db)
                  @ [\<lparr>mrow_item_id = iid, mrow_cluster_id = cid, mrow_assigned_at = dt_to_str now\<rparr>]\<rparr>)
      else (Some IntegrityError, db))"

definition clear_cluster_memberships :: "SQLiteStore \<Rightarrow> SQLiteStore" where
  "clear_cluster_memberships db = db\<lparr>cluster_membership := []\<rparr>"

subsection \<open>Cost tracking\<close>

definition log_cost :: "SQLiteStore \<Rightarrow> CostLogEntry \<Rightarrow> SQLiteStore" where
  "log_cost db entry =
     db\<lparr>cost_log := cost_log db @ [\<lparr>
        lrow_id = Suc (length (cost_log db)),
        lrow_item_id = ce_item_id entry,
        lrow_model = ce_model entry,
        lrow_input_tokens = ce_input_tokens entry,
        lrow_output_tokens = ce_output_tokens entry,
        lrow_cost_usd = ce_cost_usd entry,
        lrow_timestamp = dt_to_str (ce_timestamp entry)\<rparr>]\<rparr>"

text \<open>
  \<open>get_daily_cost\<close>: the two bounds are texts and the WHERE clause compares texts;
  \<open>COALESCE(SUM(cost_usd), 0.0)\<close> is the sum, zero over no row.
\<close>

definition get_daily_cost :: "SQLiteStore \<Rightarrow> datetime \<Rightarrow> real" where
  "get_daily_cost db date =
     (let day_start = date\<lparr>hour := 0, minute := 0, second := 0, microsecond := 0\<rparr>;
          day_end = day_start\<lparr>hour := 23, minute := 59, second := 59\<rparr>
      in sum_list (map lrow_cost_usd
           (filter (\<lambda>r. dt_to_str day_start \<le> lrow_timestamp r \<and> lrow_timestamp r \<le> dt_to_str day_end)
              (cost_log db))))"

definition get_total_cost :: "SQLiteStore \<Rightarrow> real" where
  "get_total_cost db = sum_list (map lrow_cost_usd (cost_log db))"

text \<open>
  What the WHERE clause of \<open>get_daily_cost\<close> selects, read on instants instead of texts:
  the timestamp is on the calendar day of \<open>t\<close> and its time of day (hour, minute,
  second, microsecond, compared in that order) is at most 23:59:59.000000, the instant of
  \<open>day_end\<close>, whose microsecond is still the zero of \<open>day_start\<close>.
\<close>

definition in_query_window :: "datetime \<Rightarrow> datetime \<Rightarrow> bool" where
  "in_query_window t ts =
     (year ts = year t \<and> month ts = month t \<and> day ts = day t
      \<and> [hour ts, minute ts, second ts, microsecond ts] \<le> [23, 59, 59, 0])"

section \<open>Ingestion (\<open>sources/__init__.py\<close>)\<close>

fun deduplicate_loop :: "RawItem list \<Rightarrow> SQLiteStore \<Rightarrow> RawItem list \<Rightarrow> RawItem list" where
  "deduplicate_loop [] store new = new"
| "deduplicate_loop (item # rest) store new =
     (if \<not> item_url_exists store (raw_source_url item)
      then deduplicate_loop rest store (new @ [item])
      else deduplicate_loop rest store new)"

definition deduplicate :: "RawItem list \<Rightarrow> SQLiteStore \<Rightarrow> RawItem list" where
  "deduplicate raw_items store = deduplicate_loop raw_items store []"

section \<open>The vector store (\<open>storage/vectors.py\<close>)\<close>

text \<open>
  The collection is a list of points. A payload is a dict of strings (the code writes
  strings only). The collection is created with \<open>size=VECTOR_SIZE\<close>, so the database
  refuses a vector of another dimension.
\<close>

record Point =
  pt_id :: string
  pt_vector :: "real list"
  pt_payload :: "(string \<times> string) list"

type_synonym VectorStore = "Point list"

definition VECTOR_SIZE :: nat where
  "VECTOR_SIZE = 384"

definition upsert_item ::
  "VectorStore \<Rightarrow> string \<Rightarrow> real list \<Rightarrow> (string \<times> string) list \<Rightarrow> py_error option \<times> VectorStore" where
  "upsert_item vs point_id vector payload =
     (let p = \<lparr>pt_id = point_id, pt_vector = vector, pt_payload = payload\<rparr>
      in if length vector \<noteq> VECTOR_SIZE then (Some BackendError, vs)
         else if list_ex (\<lambda>q. pt_id q = point_id) vs
         then (None, map (\<lambda>q. if pt_id q = point_id then p else q) vs)
         else (None, vs @ [p]))"

text \<open>
  The filter \<open>published_at >= since\<close> of the database compares instants; a point without a
  readable \<open>published_at\<close> does not match.
\<close>

definition matches_since :: "string \<Rightarrow> Point \<Rightarrow> bool" where
  "matches_since since p =
     (case map_of (pt_payload p) ''published_at'' of
        None \<Rightarrow> False
      | Some t \<Rightarrow>
         (case (fromisoformat t, fromisoformat since) of
            (Inr a, Inr b) \<Rightarrow> dt_key b \<le> dt_key a
          | _ \<Rightarrow> False))"

text \<open>
  \<open>client.scroll\<close> returns one page of the matching points and the offset of the next
  page, \<open>None\<close> after the last; the offset is modelled as a position.
\<close>

definition scroll :: "Point list \<Rightarrow> nat \<Rightarrow> nat \<Rightarrow> Point list \<times> nat option" where
  "scroll pts limit offset =
     (take limit (drop offset pts),
      if offset + limit < length pts then Some (offset + limit) else None)"

function scroll_loop ::
  "Point list \<Rightarrow> nat \<Rightarrow> string list \<Rightarrow> real list list \<Rightarrow> string list \<times> real list list" where
  "scroll_loop pts offset ids vectors =
     (let results = fst (scroll pts 1000 offset);
          ids' = ids @ map pt_id results;
          vectors' = vectors @ map pt_vector results
      in (case snd (scroll pts 1000 offset) of
            None \<Rightarrow> (ids', vectors')
          | Some next_offset \<Rightarrow> scroll_loop pts next_offset ids' vectors'))"
  by pat_completeness auto
termination
  by (relation "measure (\<lambda>(pts, offset, ids, vectors). length pts - offset)")
    (auto simp: scroll_def split: if_splits)

declare scroll_loop.simps [simp del]

definition get_all_vectors :: "VectorStore \<Rightarrow> string option \<Rightarrow> string list \<times> real list list" where
  "get_all_vectors vs since =
     (let matching = (case since of
                        None \<Rightarrow> vs
                      | Some s \<Rightarrow> if s = [] then vs else filter (matches_since s) vs)
      in scroll_loop matching 0 [] [])"

definition get_vectors_by_ids :: "VectorStore \<Rightarrow> string list \<Rightarrow> (string \<rightharpoonup> real list)" where
  "get_vectors_by_ids vs point_ids =
     (if point_ids = [] then Map.empty
      else (\<lambda>i. if i \<in> set point_ids then map_of (map (\<lambda>p. (pt_id p, pt_vector p)) vs) i
                else None))"

definition delete_points :: "VectorStore \<Rightarrow> string list \<Rightarrow> VectorStore" where
  "delete_points vs point_ids =
     (if point_ids = [] then vs else filter (\<lambda>p. pt_id p \<notin> set point_ids) vs)"

section \<open>Configuration (\<open>config.py\<close>)\<close>

record Settings =
  enrichment_daily_budget_usd :: real
  track_costs :: bool

record ClusteringConfig =
  min_cluster_size :: int
  min_samples :: int
  rolling_window_days :: int
  divergence_threshold :: real

section \<open>The enricher (\<open>enrichment/__init__.py\<close>)\<close>

text \<open>
  The two stores and, to speak about order, the calls made to them. \<open>_process_one\<close> runs
  under the semaphore and gives control away only at \<open>await llm.enrich(item)\<close>: what follows
  the reply runs without interruption.

  \<open>llm\<close> is \<open>llm.enrich\<close>, \<open>embedder\<close> is \<open>embedder.embed_enrichment\<close>, \<open>today\<close> is
  \<open>datetime.now(timezone.utc)\<close>. The result is \<open>Inr None\<close> where the function returns
  \<open>None\<close>, \<open>Inl\<close> where an exception leaves it (\<open>gather\<close> collects it; the item is not
  among the enriched ones).
\<close>

datatype store_call = LogCost CostLogEntry | InsertItem EnrichedItem | UpsertVector string

record World =
  w_sqlite :: SQLiteStore
  w_vectors :: VectorStore
  w_calls :: "store_call list"

definition build_enriched_item ::
  "RawItem \<Rightarrow> EnrichmentResult \<Rightarrow> CostLogEntry \<Rightarrow> string \<Rightarrow> EnrichedItem" where
  "build_enriched_item item result cost_entry model_name = \<lparr>
     item_id = raw_id item,
     source_type = raw_source_type item,
     source_name = raw_source_name item,
     source_url = raw_source_url item,
     title = raw_title item,
     published_at = raw_published_at item,
     ingested_at = raw_ingested_at item,
     language = raw_language item,
     summary = er_summary result,
     entities = er_entities result,
     claims = er_claims result,
     framing = er_framing result,
     sentiment = er_sentiment result,
     topic_tags = er_topic_tags result,
     embedding_id = raw_id item,
     embedding_model = model_name,
     cluster_id = None,
     cluster_label = None,
     enrichment_model = ce_model cost_entry,
     enrichment_cost_usd = ce_cost_usd cost_entry\<rparr>"

definition item_payload :: "RawItem \<Rightarrow> EnrichmentResult \<Rightarrow> (string \<times> string) list" where
  "item_payload item result =
     [(''source_type'', SourceType_value (raw_source_type item)),
      (''source_name'', raw_source_name item),
      (''published_at'', isoformat (raw_published_at item)),
      (''title'', (case raw_title item of None \<Rightarrow> [] | Some t \<Rightarrow> t)),
      (''summary'', er_summary result)]"

text \<open>The part of \<open>_process_one\<close> after the reply of the language model.\<close>

definition after_enrich ::
  "Settings \<Rightarrow> (EnrichmentResult \<Rightarrow> py_error + real list) \<Rightarrow> string \<Rightarrow> RawItem
     \<Rightarrow> EnrichmentResult \<Rightarrow> CostLogEntry \<Rightarrow> World \<Rightarrow> (py_error + EnrichedItem option) \<times> World" where
  "after_enrich settings embedder model_name item result cost_entry w0 =
     (let w1 = (if track_costs settings
                then w0\<lparr>w_sqlite := log_cost (w_sqlite w0) cost_entry,
                        w_calls := w_calls w0 @ [LogCost cost_entry]\<rparr>
                else w0)
      in (case embedder result of
            Inl err \<Rightarrow> (Inr None, w1)
          | Inr vector \<Rightarrow>
             (let enriched_item = build_enriched_item item result cost_entry model_name;
                  ins = insert_item (w_sqlite w1) enriched_item;
                  w2 = w1\<lparr>w_sqlite := snd ins, w_calls := w_calls w1 @ [InsertItem enriched_item]\<rparr>
              in (case fst ins of
                    Some err \<Rightarrow> (Inr None, w2)
                  | None \<Rightarrow>
                     (let ups = upsert_item (w_vectors w2) (raw_id item) vector
                                  (item_payload item result);
                          w3 = w2\<lparr>w_vectors := snd ups,
                                  w_calls := w_calls w2 @ [UpsertVector (raw_id item)]\<rparr>
                      in (case fst ups of
                            Some err \<Rightarrow> (Inl err, w3)
                          | None \<Rightarrow> (Inr (Some enriched_item), w3)))))))"

definition process_one ::
  "Settings \<Rightarrow> (RawItem \<Rightarrow> py_error + EnrichmentResult \<times> CostLogEntry)
     \<Rightarrow> (EnrichmentResult \<Rightarrow> py_error + real list) \<Rightarrow> string \<Rightarrow> datetime \<Rightarrow> RawItem
     \<Rightarrow> World \<Rightarrow> (py_error + EnrichedItem option) \<times> World" where
  "process_one settings llm embedder model_name today item w =
     (let daily_cost = get_daily_cost (w_sqlite w) today
      in if daily_cost \<ge> enrichment_daily_budget_usd settings then (Inr None, w)
         else (case llm item of
                 Inl err \<Rightarrow> (Inr None, w)
               | Inr (result, cost_entry) \<Rightarrow>
                   after_enrich settings embedder model_name item result cost_entry w))"

section \<open>The clusterer (\<open>intelligence/clustering.py\<close>)\<close>

text \<open>
  What the run takes from outside the repository: the clock, date arithmetic, uuid4,
  HDBSCAN (\<open>fit_predict\<close>: one label per row, or an exception) and numpy's \<open>argsort\<close>.
  \<open>env_uuid k\<close> and \<open>env_clock k\<close> are the uuid and the clock reading drawn while the
  \<open>k\<close>-th group is built or persisted.
\<close>

record Env =
  env_now :: datetime
  env_sub_days :: "datetime \<Rightarrow> int \<Rightarrow> datetime"
  env_hdbscan :: "int \<Rightarrow> int \<Rightarrow> real list list \<Rightarrow> py_error + int list"
  env_argsort :: "real list \<Rightarrow> nat list"
  env_uuid :: "nat \<Rightarrow> string"
  env_clock :: "nat \<Rightarrow> datetime"

type_synonym llm_provider = "RawItem \<Rightarrow> py_error + EnrichmentResult \<times> CostLogEntry"

text \<open>A new cluster with its temporary attribute \<open>_member_ids\<close>.\<close>

type_synonym new_cluster = "NarrativeCluster \<times> string list"

subsection \<open>numpy on lists of floats\<close>

text \<open>\<open>np.array\<close> of rows of different lengths is not a matrix: \<open>ValueError\<close>.\<close>

definition np_array :: "real list list \<Rightarrow> py_error + real list list" where
  "np_array rows =
     (if list_all (\<lambda>r. length r = length (hd rows)) rows then Inr rows else Inl ValueError)"

definition vec_mean :: "real list list \<Rightarrow> real list" where
  "vec_mean rows =
     map (\<lambda>j. sum_list (map (\<lambda>r. r ! j) rows) / real (length rows)) [0..<length (hd rows)]"

definition np_norm :: "real list \<Rightarrow> real" where
  "np_norm a = sqrt (sum_list (map (\<lambda>x. x * x) a))"

definition vec_sub :: "real list \<Rightarrow> real list \<Rightarrow> real list" where
  "vec_sub a b = map2 (-) a b"

subsection \<open>Pieces of the build step\<close>

text \<open>\<open>d.setdefault(key, []).append(v)\<close> on a dict in insertion order.\<close>

fun group_add :: "('k \<times> 'v list) list \<Rightarrow> 'k \<Rightarrow> 'v \<Rightarrow> ('k \<times> 'v list) list" where
  "group_add [] k v = [(k, [v])]"
| "group_add ((k', vs) # g) k v =
     (if k' = k then (k', vs @ [v]) # g else (k', vs) # group_add g k v)"

definition cluster_groups :: "int list \<Rightarrow> (int \<times> nat list) list" where
  "cluster_groups labels =
     foldl (\<lambda>g (idx, label). if label = - 1 then g else group_add g label idx) []
       (zip [0..<length labels] labels)"

text \<open>\<open>d[key] = d.get(key, 0) + 1\<close>\<close>

fun count_add :: "(string \<times> int) list \<Rightarrow> string \<Rightarrow> (string \<times> int) list" where
  "count_add [] k = [(k, 1)]"
| "count_add ((k', n) # d) k = (if k' = k then (k', n + 1) # d else (k', n) # count_add d k)"

text \<open>\<open>list(dict.fromkeys(xs))\<close>: the first occurrence of each element, in order.\<close>

definition dedup_first :: "'a list \<Rightarrow> 'a list" where
  "dedup_first xs = rev (remdups (rev xs))"

definition bin_of :: "real \<Rightarrow> string" where
  "bin_of v =
     (if v \<le> - (6 / 10) then ''very_negative''
      else if v \<le> - (2 / 10) then ''negative''
      else if v \<le> 2 / 10 then ''neutral''
      else if v \<le> 6 / 10 then ''positive''
      else ''very_positive'')"

definition bin_sentiment :: "real list \<Rightarrow> (string \<times> int) list" where
  "bin_sentiment values =
     foldl (\<lambda>bins v. map (\<lambda>(k, n). if k = bin_of v then (k, n + 1) else (k, n)) bins)
       [(''very_negative'', 0), (''negative'', 0), (''neutral'', 0), (''positive'', 0),
        (''very_positive'', 0)]
       values"

text \<open>\<open>min(i.published_at for i in member_items)\<close> on a list that is not empty.\<close>

definition min_published_at :: "EnrichedItem list \<Rightarrow> datetime" where
  "min_published_at its =
     foldl (\<lambda>m i. if dt_key (published_at i) < dt_key m then published_at i else m)
       (published_at (hd its)) (tl its)"

subsection \<open>\<open>_label_cluster\<close>\<close>

definition label_prompt :: "string \<Rightarrow> datetime \<Rightarrow> EnrichedItem list \<Rightarrow> RawItem" where
  "label_prompt uuid t representative_items =
     (let items_text = concat (map (\<lambda>(i, item).
            [CHR 0x0A] @ [digit_char i] @ ''. Summary: '' @ summary item @ [CHR 0x0A]
            @ ''   Framing: '' @ framing item @ [CHR 0x0A])
          (zip [1..<6] (take 5 representative_items)))
      in \<lparr>raw_id = uuid, raw_source_type = RSS, raw_source_name = ''cluster_labeling'',
          raw_source_url = ''internal://cluster-label'', raw_title = None,
          raw_content_text =
            ''Generate a short narrative cluster label (max 10 words) and a 2-sentence ''
            @ ''summary for this group of related items:'' @ [CHR 0x0A] @ items_text
            @ [CHR 0x0A, CHR 0x0A]
            @ ''Respond with JSON: {'' @ [CHR 0x22] @ ''label'' @ [CHR 0x22] @ '': ''
            @ [CHR 0x22] @ ''...'' @ [CHR 0x22] @ '', '' @ [CHR 0x22] @ ''summary''
            @ [CHR 0x22] @ '': '' @ [CHR 0x22] @ ''...'' @ [CHR 0x22] @ ''}'',
          raw_author = None, raw_published_at = t, raw_ingested_at = t, raw_language = ''en'',
          raw_metadata = JObj []\<rparr>)"

definition label_cluster ::
  "llm_provider option \<Rightarrow> string \<Rightarrow> datetime \<Rightarrow> EnrichedItem list \<Rightarrow> string \<times> string" where
  "label_cluster llm uuid t representative_items =
     (case llm of
        None \<Rightarrow>
          (case representative_items of
             first # _ \<Rightarrow> (take 80 (summary first), summary first)
           | [] \<Rightarrow> (''Unlabeled Cluster'', ''No representative items.''))
      | Some enrich \<Rightarrow>
          (case enrich (label_prompt uuid t representative_items) of
             Inr (result, _) \<Rightarrow> (take 80 (er_summary result), er_summary result)
           | Inl err \<Rightarrow>
              (case representative_items of
                 first # _ \<Rightarrow> (take 80 (summary first), summary first)
               | [] \<Rightarrow> (''Unlabeled Cluster'', ''Labeling failed.''))))"

subsection \<open>Step 5: one group becomes one cluster\<close>

definition build_cluster ::
  "Env \<Rightarrow> llm_provider option \<Rightarrow> nat \<Rightarrow> string list \<Rightarrow> real list list
     \<Rightarrow> (string \<rightharpoonup> EnrichedItem) \<Rightarrow> nat list \<Rightarrow> py_error + new_cluster option" where
  "build_cluster env llm k point_ids X all_items indices =
     (if list_ex (\<lambda>i. length point_ids \<le> i) indices then Inl IndexError
      else
       (let member_ids = map (\<lambda>i. point_ids ! i) indices;
            member_items = List.map_filter all_items member_ids
        in if member_items = [] then Inr None
           else
            (let cluster_vecs = map (\<lambda>i. X ! i) indices;
                 centroid = vec_mean cluster_vecs;
                 distances = map (\<lambda>v. np_norm (vec_sub v centroid)) cluster_vecs;
                 closest_indices = take 5 (env_argsort env distances);
                 representative_items =
                   map (\<lambda>i. member_items ! i)
                     (filter (\<lambda>i. i < length member_items) closest_indices);
                 labelled = label_cluster llm (env_uuid env (2 * k)) (env_clock env k)
                              representative_items;
                 source_dist = foldl (\<lambda>d item. count_add d (SourceType_value (source_type item)))
                                 [] member_items;
                 sentiment_dist = bin_sentiment (map sentiment member_items);
                 entity_counts = foldl (\<lambda>d item. foldl (\<lambda>d' e. count_add d' (name e)) d (entities item))
                                   [] member_items;
                 all_claims = concat (map claims member_items);
                 key_entities = take 10 (map fst (sort_key (\<lambda>kv. - snd kv) entity_counts));
                 key_claims = take 10 (dedup_first all_claims);
                 cluster = \<lparr>
                   nc_id = env_uuid env (2 * k + 1),
                   nc_label = fst labelled,
                   nc_summary = snd labelled,
                   nc_item_count = int (length member_items),
                   nc_first_seen = min_published_at member_items,
                   nc_last_updated = env_now env,
                   nc_centroid = centroid,
                   nc_source_distribution = source_dist,
                   nc_sentiment_distribution = sentiment_dist,
                   nc_key_entities = key_entities,
                   nc_key_claims = key_claims,
                   nc_status = EMERGING,
                   nc_parent_cluster_id = None\<rparr>
             in Inr (Some (cluster, member_ids)))))"

fun build_clusters ::
  "Env \<Rightarrow> llm_provider option \<Rightarrow> nat \<Rightarrow> string list \<Rightarrow> real list list
     \<Rightarrow> (string \<rightharpoonup> EnrichedItem) \<Rightarrow> (int \<times> nat list) list \<Rightarrow> py_error + new_cluster list" where
  "build_clusters env llm k point_ids X all_items [] = Inr []"
| "build_clusters env llm k point_ids X all_items ((group_label, indices) # groups) =
     (case build_cluster env llm k point_ids X all_items indices of
        Inl err \<Rightarrow> Inl err
      | Inr built \<Rightarrow>
         (case build_clusters env llm (Suc k) point_ids X all_items groups of
            Inl err \<Rightarrow> Inl err
          | Inr rest \<Rightarrow> Inr ((case built of None \<Rightarrow> [] | Some c \<Rightarrow> [c]) @ rest)))"

subsection \<open>Step 6: \<open>_match_clusters\<close>\<close>

text \<open>\<open>len(a & b) / len(a | b)\<close> on two Python sets.\<close>

definition jaccard :: "string set \<Rightarrow> string set \<Rightarrow> real" where
  "jaccard a b = real (card (a \<inter> b)) / real (card (a \<union> b))"

text \<open>
  The inner loop over the previous clusters: \<open>best\<close> is the pair
  \<open>(best_overlap, best_prev_id)\<close>.
\<close>

fun best_match ::
  "NarrativeCluster list \<Rightarrow> (string \<rightharpoonup> string set) \<Rightarrow> string set \<Rightarrow> string set
     \<Rightarrow> real \<times> string option \<Rightarrow> real \<times> string option" where
  "best_match [] prev_members used_prev nc_members best = best"
| "best_match (pc # pcs) prev_members used_prev nc_members best =
     (if nc_id pc \<in> used_prev then best_match pcs prev_members used_prev nc_members best
      else
       (let pm = (case prev_members (nc_id pc) of None \<Rightarrow> {} | Some s \<Rightarrow> s)
        in if pm = {} then best_match pcs prev_members used_prev nc_members best
           else
            (let overlap = jaccard nc_members pm
             in if overlap > fst best
                then best_match pcs prev_members used_prev nc_members (overlap, Some (nc_id pc))
                else best_match pcs prev_members used_prev nc_members best)))"

text \<open>
  The outer loop. \<open>best_overlap > 0.7 and best_prev_id\<close>: the id must be there and, being a
  string, not be empty.
\<close>

fun match_loop ::
  "new_cluster list \<Rightarrow> NarrativeCluster list \<Rightarrow> (string \<rightharpoonup> string set) \<Rightarrow> string set
     \<Rightarrow> new_cluster list" where
  "match_loop [] previous_clusters prev_members used_prev = []"
| "match_loop ((nc, member_ids) # rest) previous_clusters prev_members used_prev =
     (if set member_ids = {}
      then (nc, member_ids) # match_loop rest previous_clusters prev_members used_prev
      else
       (case best_match previous_clusters prev_members used_prev (set member_ids) (0, None) of
          (best_overlap, Some best_prev_id) \<Rightarrow>
            (if best_overlap > 7 / 10 \<and> best_prev_id \<noteq> []
             then
              (let nc' = nc\<lparr>nc_id := best_prev_id, nc_status := ACTIVE,
                            nc_first_seen :=
                              (case find (\<lambda>pc. nc_id pc = best_prev_id) previous_clusters of
                                 Some pc \<Rightarrow> nc_first_seen pc
                               | None \<Rightarrow> nc_first_seen nc)\<rparr>
               in (nc', member_ids)
                  # match_loop rest previous_clusters prev_members (insert best_prev_id used_prev))
             else (nc, member_ids) # match_loop rest previous_clusters prev_members used_prev)
        | (best_overlap, None) \<Rightarrow>
            (nc, member_ids) # match_loop rest previous_clusters prev_members used_prev))"

text \<open>
  \<open>prev_members\<close>: for every previous cluster the ids of its items, as the store lists
  them (a later cluster with the same id overwrites the entry).
\<close>

fun build_prev_members ::
  "SQLiteStore \<Rightarrow> NarrativeCluster list \<Rightarrow> (string \<rightharpoonup> string set)
     \<Rightarrow> py_error + (string \<rightharpoonup> string set)" where
  "build_prev_members db [] prev_members = Inr prev_members"
| "build_prev_members db (pc # pcs) prev_members =
     (case get_items_by_cluster db (nc_id pc) of
        Inl err \<Rightarrow> Inl err
      | Inr its \<Rightarrow>
          build_prev_members db pcs (prev_members(nc_id pc \<mapsto> set (map item_id its))))"

definition match_clusters ::
  "SQLiteStore \<Rightarrow> new_cluster list \<Rightarrow> NarrativeCluster list \<Rightarrow> py_error + new_cluster list" where
  "match_clusters db new_clusters previous_clusters =
     (if previous_clusters = [] then Inr new_clusters
      else
       (case build_prev_members db previous_clusters Map.empty of
          Inl err \<Rightarrow> Inl err
        | Inr prev_members \<Rightarrow> Inr (match_loop new_clusters previous_clusters prev_members {})))"

subsection \<open>Step 7: persist\<close>

fun persist_members ::
  "SQLiteStore \<Rightarrow> datetime \<Rightarrow> NarrativeCluster \<Rightarrow> string list \<Rightarrow> py_error option \<times> SQLiteStore" where
  "persist_members db t c [] = (None, db)"
| "persist_members db t c (mid # mids) =
     (case set_cluster_membership db t mid (nc_id c) of
        (Some err, db') \<Rightarrow> (Some err, db')
      | (None, db') \<Rightarrow>
          persist_members (update_item_cluster db' mid (nc_id c) (nc_label c)) t c mids)"

fun persist_clusters ::
  "SQLiteStore \<Rightarrow> (nat \<Rightarrow> datetime) \<Rightarrow> nat \<Rightarrow> new_cluster list \<Rightarrow> py_error option \<times> SQLiteStore" where
  "persist_clusters db clock k [] = (None, db)"
| "persist_clusters db clock k ((c, member_ids) # rest) =
     (case persist_members (upsert_cluster db c) (clock k) c member_ids of
        (Some err, db') \<Rightarrow> (Some err, db')
      | (None, db') \<Rightarrow> persist_clusters db' clock (Suc k) rest)"

definition mark_fading :: "SQLiteStore \<Rightarrow> NarrativeCluster list \<Rightarrow> string set \<Rightarrow> SQLiteStore" where
  "mark_fading db previous_clusters new_ids =
     foldl (\<lambda>d prev. if nc_id prev \<notin> new_ids
                      then update_cluster_status d (nc_id prev) (ClusterStatus_value FADING)
                      else d)
       db previous_clusters"

subsection \<open>\<open>ClusteringPipeline.run\<close>\<close>

text \<open>
  The result is the returned list or the exception that left the function, and the store
  after the call: every write of the store is a transaction of its own, so an exception
  leaves what was written before it. The returned objects are the new clusters themselves,
  which still carry their attribute \<open>_member_ids\<close>.
\<close>

definition run ::
  "Env \<Rightarrow> ClusteringConfig \<Rightarrow> llm_provider option \<Rightarrow> VectorStore \<Rightarrow> SQLiteStore
     \<Rightarrow> (py_error + new_cluster list) \<times> SQLiteStore" where
  "run env config llm vectors db =
     (let now = env_now env;
          since = env_sub_days env now (rolling_window_days config);
          since_str = isoformat since;
          scrolled = get_all_vectors vectors (Some since_str);
          point_ids = fst scrolled;
          vectors_list = snd scrolled
      in if int (length point_ids) < min_cluster_size config then (Inr [], db)
         else
     (case np_array vectors_list of
        Inl err \<Rightarrow> (Inl err, db)
      | Inr X \<Rightarrow>
     (case env_hdbscan env (min_cluster_size config) (min_samples config) X of
        Inl err \<Rightarrow> (Inl err, db)
      | Inr labels \<Rightarrow>
     (case traverse (get_item db) point_ids of
        Inl err \<Rightarrow> (Inl err, db)
      | Inr found \<Rightarrow>
     (let all_items = map_of (List.map_filter (\<lambda>(pid, it). map_option (Pair pid) it)
                                (zip point_ids found))
      in
     (case build_clusters env llm 0 point_ids X all_items (cluster_groups labels) of
        Inl err \<Rightarrow> (Inl err, db)
      | Inr new_clusters0 \<Rightarrow>
     (case get_active_clusters db of
        Inl err \<Rightarrow> (Inl err, db)
      | Inr previous_clusters \<Rightarrow>
     (case match_clusters db new_clusters0 previous_clusters of
        Inl err \<Rightarrow> (Inl err, db)
      | Inr new_clusters \<Rightarrow>
     (case persist_clusters (clear_cluster_memberships db) (env_clock env) 0 new_clusters of
        (Some err, db') \<Rightarrow> (Inl err, db')
      | (None, db') \<Rightarrow>
          (Inr new_clusters,
           mark_fading db' previous_clusters (set (map (\<lambda>c. nc_id (fst c)) new_clusters))))))))))))"

section \<open>Source divergence (\<open>intelligence/divergence.py\<close>)\<close>

record Divergence =
  dv_cluster_id :: string
  dv_cluster_label :: string
  dv_source_a :: string
  dv_source_b :: string
  dv_cosine_distance :: real
  dv_description :: string

text \<open>
  \<open>np.mean(vecs, axis=0)\<close> and \<open>np.dot\<close> raise \<open>ValueError\<close> on vectors of different
  lengths.
\<close>

definition np_mean :: "real list list \<Rightarrow> py_error + real list" where
  "np_mean vecs =
     (if list_all (\<lambda>v. length v = length (hd vecs)) vecs then Inr (vec_mean vecs)
      else Inl ValueError)"

definition np_dot :: "real list \<Rightarrow> real list \<Rightarrow> py_error + real" where
  "np_dot a b =
     (if length a = length b then Inr (sum_list (map2 (*) a b)) else Inl ValueError)"

text \<open>\<open>round(x, 4)\<close>: to the nearest multiple of 0.0001, a tie to the even one.\<close>

definition round_half_even :: "real \<Rightarrow> int" where
  "round_half_even y =
     (let f = \<lfloor>y\<rfloor>; d = y - of_int f
      in if d < 1 / 2 then f else if d > 1 / 2 then f + 1 else if even f then f else f + 1)"

definition py_round4 :: "real \<Rightarrow> real" where
  "py_round4 x = of_int (round_half_even (x * 10000)) / 10000"

text \<open>
  \<open>cos_sim = np.dot(va, vb) / (np.linalg.norm(va) * np.linalg.norm(vb) + 1e-10)\<close> and
  \<open>cos_dist = 1.0 - cos_sim\<close>.
\<close>

definition cos_dist_of :: "real list \<Rightarrow> real list \<Rightarrow> py_error + real" where
  "cos_dist_of va vb =
     (case np_dot va vb of
        Inl err \<Rightarrow> Inl err
      | Inr d \<Rightarrow> Inr (1 - d / (np_norm va * np_norm vb + 1 / 10 ^ 10)))"

text \<open>The appended dict; \<open>fmt3\<close> is Python's format \<open>.3f\<close> of a float.\<close>

definition divergence_record ::
  "(real \<Rightarrow> string) \<Rightarrow> NarrativeCluster \<Rightarrow> string \<Rightarrow> string \<Rightarrow> real \<Rightarrow> Divergence" where
  "divergence_record fmt3 cluster sa sb cos_dist = \<lparr>
     dv_cluster_id = nc_id cluster,
     dv_cluster_label = nc_label cluster,
     dv_source_a = sa,
     dv_source_b = sb,
     dv_cosine_distance = py_round4 cos_dist,
     dv_description =
       [CHR 0x27] @ sa @ [CHR 0x27] @ '' and '' @ [CHR 0x27] @ sb @ [CHR 0x27]
       @ '' sources diverge on '' @ [CHR 0x27] @ nc_label cluster @ [CHR 0x27]
       @ '' (distance='' @ fmt3 cos_dist @ '')''\<rparr>"

definition source_groups :: "EnrichedItem list \<Rightarrow> (string \<times> string list) list" where
  "source_groups its =
     foldl (\<lambda>g item. group_add g (SourceType_value (source_type item)) (embedding_id item)) [] its"

fun sub_centroids_loop ::
  "(string \<rightharpoonup> real list) \<Rightarrow> (string \<times> string list) list \<Rightarrow> (string \<times> real list) list
     \<Rightarrow> py_error + (string \<times> real list) list" where
  "sub_centroids_loop vectors_map [] sub_centroids = Inr sub_centroids"
| "sub_centroids_loop vectors_map ((stype, ids) # rest) sub_centroids =
     (let vecs = List.map_filter vectors_map ids
      in if vecs = [] then sub_centroids_loop vectors_map rest sub_centroids
         else (case np_mean vecs of
                 Inl err \<Rightarrow> Inl err
               | Inr m \<Rightarrow> sub_centroids_loop vectors_map rest (sub_centroids @ [(stype, m)])))"

text \<open>
  \<open>for i in range(len(sources)): for j in range(i + 1, len(sources))\<close>: every source with
  every later one.
\<close>

fun pair_inner_loop ::
  "real \<Rightarrow> (real \<Rightarrow> string) \<Rightarrow> NarrativeCluster \<Rightarrow> string \<times> real list
     \<Rightarrow> (string \<times> real list) list \<Rightarrow> Divergence list \<Rightarrow> py_error + Divergence list" where
  "pair_inner_loop threshold fmt3 cluster a [] divergences = Inr divergences"
| "pair_inner_loop threshold fmt3 cluster a (b # rest) divergences =
     (case cos_dist_of (snd a) (snd b) of
        Inl err \<Rightarrow> Inl err
      | Inr cos_dist \<Rightarrow>
          pair_inner_loop threshold fmt3 cluster a rest
            (if cos_dist > threshold
             then divergences @ [divergence_record fmt3 cluster (fst a) (fst b) cos_dist]
             else divergences))"

fun pair_outer_loop ::
  "real \<Rightarrow> (real \<Rightarrow> string) \<Rightarrow> NarrativeCluster \<Rightarrow> (string \<times> real list) list
     \<Rightarrow> Divergence list \<Rightarrow> py_error + Divergence list" where
  "pair_outer_loop threshold fmt3 cluster [] divergences = Inr divergences"
| "pair_outer_loop threshold fmt3 cluster (a # rest) divergences =
     (case pair_inner_loop threshold fmt3 cluster a rest divergences of
        Inl err \<Rightarrow> Inl err
      | Inr divergences' \<Rightarrow> pair_outer_loop threshold fmt3 cluster rest divergences')"

fun detect_loop ::
  "real \<Rightarrow> (real \<Rightarrow> string) \<Rightarrow> SQLiteStore \<Rightarrow> VectorStore \<Rightarrow> NarrativeCluster list
     \<Rightarrow> Divergence list \<Rightarrow> py_error + Divergence list" where
  "detect_loop threshold fmt3 db vs [] divergences = Inr divergences"
| "detect_loop threshold fmt3 db vs (cluster # rest) divergences =
     (case get_items_by_cluster db (nc_id cluster) of
        Inl err \<Rightarrow> Inl err
      | Inr its \<Rightarrow>
         (if length its < 3 then detect_loop threshold fmt3 db vs rest divergences
          else
           (let groups = source_groups its
            in if length groups < 2 then detect_loop threshold fmt3 db vs rest divergences
               else
                (let all_ids = concat (map snd groups);
                     vectors_map = get_vectors_by_ids vs all_ids
                 in (case sub_centroids_loop vectors_map groups [] of
                       Inl err \<Rightarrow> Inl err
                     | Inr sub_centroids \<Rightarrow>
                        (if length sub_centroids < 2
                         then detect_loop threshold fmt3 db vs rest divergences
                         else
                          (case pair_outer_loop threshold fmt3 cluster sub_centroids divergences of
                             Inl err \<Rightarrow> Inl err
                           | Inr divergences' \<Rightarrow>
                               detect_loop threshold fmt3 db vs rest divergences')))))))"

definition detect ::
  "real \<Rightarrow> (real \<Rightarrow> string) \<Rightarrow> NarrativeCluster list \<Rightarrow> SQLiteStore \<Rightarrow> VectorStore
     \<Rightarrow> py_error + Divergence list" where
  "detect threshold fmt3 current_clusters db vs = detect_loop threshold fmt3 db vs current_clusters []"

section \<open>Notions used to state the properties\<close>

text \<open>A JSON number and the real it denotes.\<close>

fun json_number :: "json \<Rightarrow> real option" where
  "json_number (JInt n) = Some (of_int n)"
| "json_number (JFloat x) = Some x"
| "json_number _ = None"

text \<open>
  An entity object whose \<open>type\<close> or \<open>role\<close> (with the defaults of the parser for a missing
  key) is not the value of a member of the enum.
\<close>

definition unknown_type_or_role :: "json \<Rightarrow> bool" where
  "unknown_type_or_role e =
     (case e of
        JObj kvs \<Rightarrow> EntityType_of (dict_get kvs ''type'' (JStr ''person'')) = None
                  \<or> EntityRole_of (dict_get kvs ''role'' (JStr ''mentioned'')) = None
      | _ \<Rightarrow> False)"

definition frac :: "nat \<Rightarrow> string" where
  "frac us = (if us = 0 then [] else ''.'' @ zpad 6 us) @ ''+00:00''"

text \<open>
  The window of \<open>DailyCostUSD\<close>: the instants of the UTC calendar day of \<open>t\<close>, from
  00:00:00 to the end of the second 23:59:59.
\<close>

definition in_day_window :: "datetime \<Rightarrow> datetime \<Rightarrow> bool" where
  "in_day_window t ts = (year ts = year t \<and> month ts = month t \<and> day ts = day t)"

text \<open>The rows that the SELECT of \<open>get_items\<close> returns, before they are converted.\<close>

definition selected_rows :: "SQLiteStore \<Rightarrow> datetime option \<Rightarrow> int \<Rightarrow> string option \<Rightarrow> ItemRow list" where
  "selected_rows db since limit stype =
     (let rows0 = filter (\<lambda>r. row_archived r = 0) (items db);
          rows1 = (case since of
                     None \<Rightarrow> rows0
                   | Some t \<Rightarrow> filter (\<lambda>r. dt_to_str t \<le> row_published_at r) rows0);
          rows2 = (case stype of
                     None \<Rightarrow> rows1
                   | Some st \<Rightarrow> if st = [] then rows1
                                else filter (\<lambda>r. row_source_type r = st) rows1)
      in sql_limit limit (order_by_published_at_desc rows2))"



text \<open>
  The divergence detector in the words of the specification: the members are partitioned
  by source family (families in the order of their first member), the vectors of a
  family are those the index returns for its members, a family with at least one vector
  has their mean, and every unordered pair of such families is compared once.
\<close>

definition family :: "EnrichedItem \<Rightarrow> string" where
  "family i = SourceType_value (source_type i)"

definition families :: "EnrichedItem list \<Rightarrow> string list" where
  "families its = dedup_first (map family its)"

definition family_vectors :: "VectorStore \<Rightarrow> EnrichedItem list \<Rightarrow> string \<Rightarrow> real list list" where
  "family_vectors vs its f =
     List.map_filter (map_of (map (\<lambda>p. (pt_id p, pt_vector p)) vs))
       (map embedding_id (filter (\<lambda>i. family i = f) its))"

definition family_means :: "VectorStore \<Rightarrow> EnrichedItem list \<Rightarrow> (string \<times> real list) list" where
  "family_means vs its =
     map (\<lambda>f. (f, vec_mean (family_vectors vs its f)))
       (filter (\<lambda>f. family_vectors vs its f \<noteq> []) (families its))"

fun unordered_pairs :: "'a list \<Rightarrow> ('a \<times> 'a) list" where
  "unordered_pairs [] = []"
| "unordered_pairs (x # xs) = map (Pair x) xs @ unordered_pairs xs"

definition cosine_distance :: "real list \<Rightarrow> real list \<Rightarrow> real" where
  "cosine_distance va vb =
     1 - sum_list (map2 (*) va vb) / (np_norm va * np_norm vb + 1 / 10 ^ 10)"

definition spec_divergences ::
  "real \<Rightarrow> (real \<Rightarrow> string) \<Rightarrow> NarrativeCluster \<Rightarrow> VectorStore \<Rightarrow> EnrichedItem list
     \<Rightarrow> Divergence list" where
  "spec_divergences threshold fmt3 cluster vs its =
     map (\<lambda>(a, b). divergence_record fmt3 cluster (fst a) (fst b)
                      (cosine_distance (snd a) (snd b)))
       (filter (\<lambda>(a, b). cosine_distance (snd a) (snd b) > threshold)
          (unordered_pairs (family_means vs its)))"

section \<open>Values of the test suite (\<open>tests/conftest.py\<close>)\<close>

definition ex_now :: datetime where
  "ex_now = \<lparr>year = 2025, month = 6, day = 15, hour = 12, minute = 0, second = 0, microsecond = 0\<rparr>"

definition ex_yesterday :: datetime where
  "ex_yesterday = \<lparr>year = 2025, month = 6, day = 14, hour = 12, minute = 0, second = 0, microsecond = 0\<rparr>"

text \<open>Half a second before midnight of the same day.\<close>

definition ex_late :: datetime where
  "ex_late = \<lparr>year = 2025, month = 6, day = 15, hour = 23, minute = 59, second = 59,
     microsecond = 500000\<rparr>"

definition ex_url :: string where
  "ex_url = ''https://example.com/unique-article''"

definition ex_other_url :: string where
  "ex_other_url = ''https://example.com/other''"

definition ex_item :: "string \<Rightarrow> string \<Rightarrow> EnrichedItem" where
  "ex_item iid url = \<lparr>
     item_id = iid, source_type = RSS, source_name = ''Test Feed'', source_url = url,
     title = Some ''Test Article'', published_at = ex_now, ingested_at = ex_now, language = ''en'',
     summary = ''A test summary.'',
     entities = [\<lparr>name = ''Test Org'', entity_type = ORG, role = SUBJECT, aliases = [''TO'']\<rparr>],
     claims = [''Test claim one'', ''Test claim two''], framing = ''neutral reporting'',
     sentiment = 1 / 10, topic_tags = [''testing'', ''demo''], embedding_id = iid,
     embedding_model = ''all-MiniLM-L6-v2'', cluster_id = None, cluster_label = None,
     enrichment_model = ''claude-haiku-4-5-20251001'', enrichment_cost_usd = 1 / 1000\<rparr>"

definition ex_raw :: "string \<Rightarrow> string \<Rightarrow> RawItem" where
  "ex_raw iid url = \<lparr>
     raw_id = iid, raw_source_type = RSS, raw_source_name = ''test'', raw_source_url = url,
     raw_title = None, raw_content_text = ''test content'', raw_author = None,
     raw_published_at = ex_now, raw_ingested_at = ex_now, raw_language = ''en'',
     raw_metadata = JObj []\<rparr>"

text \<open>The store after \<open>insert_item\<close> of one item with id \<open>a\<close> and URL \<open>ex_url\<close>.\<close>

definition ex_db :: SQLiteStore where
  "ex_db = empty_store\<lparr>items := [item_row (ex_item ''a'' ex_url)]\<rparr>"

definition ex_cost :: "real \<Rightarrow> datetime \<Rightarrow> CostLogEntry" where
  "ex_cost c ts = \<lparr>ce_item_id = ''a'', ce_model = ''claude-haiku-4-5-20251001'',
     ce_input_tokens = 500, ce_output_tokens = 200, ce_cost_usd = c, ce_timestamp = ts\<rparr>"

definition ex_good :: json where
  "ex_good = JObj [(''name'', JStr ''Good''), (''type'', JStr ''person''), (''role'', JStr ''subject'')]"

definition ex_bad :: json where
  "ex_bad = JObj [(''name'', JStr ''Bad''), (''type'', JStr ''invalid_type''), (''role'', JStr ''subject'')]"

definition ex_data :: "json list \<Rightarrow> real \<Rightarrow> (string \<times> json) list" where
  "ex_data es s = [(''summary'', JStr ''test''), (''entities'', JArr es),
     (''claims'', JArr []), (''framing'', JStr ''test''), (''sentiment'', JFloat s),
     (''topic_tags'', JArr [])]"

definition ex_result :: EnrichmentResult where
  "ex_result = \<lparr>er_summary = ''A test summary.'', er_entities = [], er_claims = [],
     er_framing = ''neutral reporting'', er_sentiment = 1 / 10, er_topic_tags = []\<rparr>"

definition ex_settings :: "bool \<Rightarrow> Settings" where
  "ex_settings tc = \<lparr>enrichment_daily_budget_usd = 2, track_costs = tc\<rparr>"

definition ex_world :: World where
  "ex_world = \<lparr>w_sqlite = empty_store, w_vectors = [], w_calls = []\<rparr>"

definition ex_llm :: "RawItem \<Rightarrow> py_error + EnrichmentResult \<times> CostLogEntry" where
  "ex_llm item = Inr (ex_result, ex_cost (1 / 1000) ex_now)"

definition ex_unit_vector :: "real list" where
  "ex_unit_vector = 1 # replicate 383 0"

definition ex_window_start :: datetime where
  "ex_window_start = \<lparr>year = 2025, month = 5, day = 16, hour = 12, minute = 0, second = 0,
     microsecond = 0\<rparr>"

definition ex_env :: Env where
  "ex_env = \<lparr>env_now = ex_now, env_sub_days = (\<lambda>d n. ex_window_start),
     env_hdbscan = (\<lambda>a b X. Inr (replicate (length X) (- 1))),
     env_argsort = (\<lambda>xs. [0..<length xs]),
     env_uuid = (\<lambda>k. ''new-'' @ [digit_char k]), env_clock = (\<lambda>k. ex_now)\<rparr>"

definition ex_config :: ClusteringConfig where
  "ex_config = \<lparr>min_cluster_size = 3, min_samples = 2, rolling_window_days = 30,
     divergence_threshold = 3 / 10\<rparr>"

definition ex_point :: "string \<Rightarrow> Point" where
  "ex_point pid = \<lparr>pt_id = pid, pt_vector = ex_unit_vector,
     pt_payload = [(''source_type'', ''rss''), (''published_at'', isoformat ex_now)]\<rparr>"






section \<open>Lemmas: the parser\<close>

lemma entity_loop_append:
  "entity_loop (xs @ ys) acc =
     (case entity_loop xs acc of Inl err \<Rightarrow> Inl err | Inr acc' \<Rightarrow> entity_loop ys acc')"
  by (induction xs arbitrary: acc) (auto split: sum.splits)

lemma entity_loop_drop:
  assumes "build_entity e = Inl err" "entity_error_caught err"
  shows "entity_loop (xs @ e # ys) acc = entity_loop (xs @ ys) acc"
  using assms by (simp add: entity_loop_append split: sum.splits)

lemma unknown_caught:
  "unknown_type_or_role e \<Longrightarrow> \<exists>err. build_entity e = Inl err \<and> entity_error_caught err"
  by (cases e) (auto simp: unknown_type_or_role_def split: option.splits sum.splits)

lemma entity_loop_all_built:
  "\<forall>e \<in> set es. \<exists>ent. build_entity e = Inr ent \<Longrightarrow>
   entity_loop es acc = Inr (acc @ map (\<lambda>e. projr (build_entity e)) es)"
  by (induction es arbitrary: acc) (auto split: sum.splits)

lemma ex_parse:
  "parse_enrichment_data fos (JObj (ex_data [ex_good] s)) = Inr \<lparr>er_summary = ''test'',
     er_entities = [\<lparr>name = ''Good'', entity_type = PERSON, role = SUBJECT, aliases = []\<rparr>],
     er_claims = [], er_framing = ''test'', er_sentiment = max (- 1) (min 1 s), er_topic_tags = []\<rparr>"
  by (simp add: ex_data_def ex_good_def dict_get_def EntityType_of_def EntityRole_of_def)

section \<open>Lemmas: the text of a datetime\<close>

lemma length_zpad [simp]: "length (zpad k n) = k"
  by (induction k arbitrary: n) auto

lemma of_char_digit_char: "(of_char (digit_char n) :: nat) = 48 + n mod 10"
  by (simp add: digit_char_def)

lemma digit_char_less: "digit_char m < digit_char n \<longleftrightarrow> m mod 10 < n mod 10"
  by (simp add: less_char_def of_char_digit_char)

lemma digit_char_eq: "digit_char m = digit_char n \<longleftrightarrow> m mod 10 = n mod 10"
proof
  assume "digit_char m = digit_char n"
  then have "(of_char (digit_char m) :: nat) = of_char (digit_char n)" by simp
  then show "m mod 10 = n mod 10" by (simp add: of_char_digit_char)
next
  assume "m mod 10 = n mod 10"
  then show "digit_char m = digit_char n" by (simp add: digit_char_def)
qed

text \<open>Two texts that start with blocks of the same length are ordered by the blocks first.\<close>

lemma block_less:
  "length a = length b \<Longrightarrow> (a @ xs < b @ ys) \<longleftrightarrow> (a < b \<or> (a = b \<and> xs < ys))"
  by (induction a b rule: list_induct2) auto

lemma block_le:
  "length a = length b \<Longrightarrow> (a @ xs \<le> b @ ys) \<longleftrightarrow> (a < b \<or> (a = b \<and> xs \<le> ys))"
  by (induction a b rule: list_induct2) auto

lemma lex10:
  fixes a b c d :: nat
  assumes "b < 10" "d < 10"
  shows "(10 * a + b < 10 * c + d) = (a < c \<or> (a = c \<and> b < d))"
proof (cases a c rule: linorder_cases)
  case less
  then show ?thesis using assms by linarith
next
  case equal
  then show ?thesis by simp
next
  case greater
  then show ?thesis using assms by linarith
qed

lemma eq10:
  fixes a b c d :: nat
  assumes "b < 10" "d < 10"
  shows "(10 * a + b = 10 * c + d) = (a = c \<and> b = d)"
proof (cases a c rule: linorder_cases)
  case less
  then show ?thesis using assms by linarith
next
  case equal
  then show ?thesis by simp
next
  case greater
  then show ?thesis using assms by linarith
qed

lemma less_div_mod10:
  "(m::nat) < n \<longleftrightarrow> (m div 10 < n div 10 \<or> (m div 10 = n div 10 \<and> m mod 10 < n mod 10))"
  using lex10[of "m mod 10" "n mod 10" "m div 10" "n div 10"] by simp

lemma eq_div_mod10:
  "(m::nat) = n \<longleftrightarrow> (m div 10 = n div 10 \<and> m mod 10 = n mod 10)"
  using eq10[of "m mod 10" "n mod 10" "m div 10" "n div 10"] by simp

lemma zpad_eq: "m < 10 ^ k \<Longrightarrow> n < 10 ^ k \<Longrightarrow> zpad k m = zpad k n \<longleftrightarrow> m = n"
proof (induction k arbitrary: m n)
  case 0
  then show ?case by simp
next
  case (Suc k)
  have "m div 10 < 10 ^ k" "n div 10 < 10 ^ k"
    using Suc.prems by (simp_all add: less_mult_imp_div_less mult.commute)
  from Suc.IH[OF this] show ?case
    by (simp add: digit_char_eq) (use eq_div_mod10[of m n] in blast)
qed

lemma zpad_less: "m < 10 ^ k \<Longrightarrow> n < 10 ^ k \<Longrightarrow> zpad k m < zpad k n \<longleftrightarrow> m < n"
proof (induction k arbitrary: m n)
  case 0
  then show ?case by simp
next
  case (Suc k)
  have b: "m div 10 < 10 ^ k" "n div 10 < 10 ^ k"
    using Suc.prems by (simp_all add: less_mult_imp_div_less mult.commute)
  note ar = less_div_mod10[of m n]
  show ?case
    by (simp add: block_less Suc.IH[OF b] zpad_eq[OF b] digit_char_less ar)
qed

lemma frac_le:
  assumes "a < 1000000" "b < 1000000"
  shows "frac a \<le> frac b \<longleftrightarrow> a \<le> b"
proof -
  have p: "a < 10 ^ 6" "b < 10 ^ 6" using assms by simp_all
  show ?thesis
    using zpad_less[OF p] zpad_eq[OF p]
    by (auto simp: frac_def block_le)
qed

lemma days_in_month_le: "days_in_month y m \<le> 31"
  by (simp add: days_in_month_def)

lemma valid_bounds:
  assumes "valid_datetime d"
  shows "year d < 10 ^ 4" "month d < 10 ^ 2" "day d < 10 ^ 2" "hour d < 10 ^ 2"
    "minute d < 10 ^ 2" "second d < 10 ^ 2" "microsecond d < 1000000"
  using assms days_in_month_le[of "year d" "month d"] by (auto simp: valid_datetime_def)

lemma isoformat_frac:
  "isoformat d = zpad 4 (year d) @ CHR ''-'' # zpad 2 (month d) @ CHR ''-'' # zpad 2 (day d)
     @ CHR ''T'' # zpad 2 (hour d) @ CHR '':'' # zpad 2 (minute d) @ CHR '':'' # zpad 2 (second d)
     @ frac (microsecond d)"
  by (simp add: isoformat_def frac_def)

text \<open>The order of the texts is the order of the instants.\<close>

lemma isoformat_le:
  assumes "valid_datetime a" "valid_datetime b"
  shows "isoformat a \<le> isoformat b \<longleftrightarrow> dt_key a \<le> dt_key b"
proof -
  note A = valid_bounds[OF assms(1)] and B = valid_bounds[OF assms(2)]
  show ?thesis
    unfolding isoformat_frac dt_key_def
    by (simp add: block_le zpad_less[OF A(1) B(1)] zpad_eq[OF A(1) B(1)]
        zpad_less[OF A(2) B(2)] zpad_eq[OF A(2) B(2)] zpad_less[OF A(3) B(3)] zpad_eq[OF A(3) B(3)]
        zpad_less[OF A(4) B(4)] zpad_eq[OF A(4) B(4)] zpad_less[OF A(5) B(5)] zpad_eq[OF A(5) B(5)]
        zpad_less[OF A(6) B(6)] zpad_eq[OF A(6) B(6)] frac_le[OF A(7) B(7)]
        order.order_iff_strict[of "microsecond a"])
qed

lemma digit_val_digit_char: "digit_val (digit_char n) = Some (n mod 10)"
  by (simp add: digit_val_def of_char_digit_char)

lemma digits_val_snoc:
  "digits_val (xs @ [c]) acc =
     (case digits_val xs acc of
        None \<Rightarrow> None
      | Some v \<Rightarrow> (case digit_val c of None \<Rightarrow> None | Some d \<Rightarrow> Some (v * 10 + d)))"
  by (induction xs arbitrary: acc) (auto split: option.splits)

lemma digits_val_zpad: "n < 10 ^ k \<Longrightarrow> digits_val (zpad k n) acc = Some (acc * 10 ^ k + n)"
proof (induction k arbitrary: n)
  case 0
  then show ?case by simp
next
  case (Suc k)
  have "n div 10 < 10 ^ k"
    using Suc.prems by (simp add: less_mult_imp_div_less mult.commute)
  from Suc.IH[OF this] show ?case
    by (simp add: digits_val_snoc digit_val_digit_char algebra_simps)
qed

text \<open>Reading back what was written gives the datetime.\<close>

lemma fromisoformat_isoformat:
  assumes "valid_datetime d"
  shows "fromisoformat (isoformat d) = Inr d"
proof -
  note A = valid_bounds[OF assms]
  have us: "microsecond d < 10 ^ 6" using A(7) by simp
  note dv = digits_val_zpad[OF A(1), of 0] digits_val_zpad[OF A(2), of 0]
    digits_val_zpad[OF A(3), of 0] digits_val_zpad[OF A(4), of 0] digits_val_zpad[OF A(5), of 0]
    digits_val_zpad[OF A(6), of 0] digits_val_zpad[OF us, of 0]
  show ?thesis
  proof (cases "microsecond d = 0")
    case True
    then show ?thesis using assms dv
      by (simp add: fromisoformat_def isoformat_def num_field_def nth_append Let_def
          valid_datetime_def)
  next
    case False
    then show ?thesis using assms dv
      by (simp add: fromisoformat_def isoformat_def num_field_def nth_append Let_def
          valid_datetime_def)
  qed
qed

lemma valid_ex_now: "valid_datetime ex_now" "valid_datetime ex_yesterday"
  by (simp_all add: valid_datetime_def ex_now_def ex_yesterday_def days_in_month_def)

lemma valid_ex_item: "valid_item (ex_item i u)"
  by (simp add: valid_item_def ex_item_def valid_ex_now)

section \<open>Lemmas: the cost log\<close>

lemma window_iff:
  assumes "valid_datetime t" "valid_datetime ts"
  defines "day_start \<equiv> t\<lparr>hour := 0, minute := 0, second := 0, microsecond := 0\<rparr>"
  defines "day_end \<equiv> day_start\<lparr>hour := 23, minute := 59, second := 59\<rparr>"
  shows "(dt_to_str day_start \<le> dt_to_str ts \<and> dt_to_str ts \<le> dt_to_str day_end)
       \<longleftrightarrow> in_query_window t ts"
proof -
  have v: "valid_datetime day_start" "valid_datetime day_end"
    using assms(1) by (simp_all add: valid_datetime_def day_start_def day_end_def)
  have k: "dt_key day_start = [year t, month t, day t, 0, 0, 0, 0]"
    "dt_key day_end = [year t, month t, day t, 23, 59, 59, 0]"
    by (simp_all add: dt_key_def day_start_def day_end_def)
  have "(dt_to_str day_start \<le> dt_to_str ts \<and> dt_to_str ts \<le> dt_to_str day_end)
      \<longleftrightarrow> (dt_key day_start \<le> dt_key ts \<and> dt_key ts \<le> dt_key day_end)"
    unfolding dt_to_str_def
    using isoformat_le[OF v(1) assms(2)] isoformat_le[OF assms(2) v(2)] by blast
  also have "\<dots> \<longleftrightarrow> in_query_window t ts"
    unfolding k by (auto simp: dt_key_def in_query_window_def)
  finally show ?thesis .
qed

lemma get_daily_cost_log_cost:
  assumes "valid_datetime t" "valid_datetime (ce_timestamp e)"
  shows "get_daily_cost (log_cost db e) t =
    get_daily_cost db t + (if in_query_window t (ce_timestamp e) then ce_cost_usd e else 0)"
  using window_iff[OF assms]
  by (simp add: get_daily_cost_def log_cost_def Let_def del: datetime.simps datetime.update_convs)

lemma get_daily_cost_foldl:
  assumes "valid_datetime t" "\<forall>e \<in> set es. valid_datetime (ce_timestamp e)"
  shows "get_daily_cost (foldl log_cost db es) t =
    get_daily_cost db t
    + sum_list (map ce_cost_usd (filter (\<lambda>e. in_query_window t (ce_timestamp e)) es))"
  using assms(2)
proof (induction es rule: rev_induct)
  case Nil
  then show ?case by simp
next
  case (snoc e es)
  then show ?case
    using get_daily_cost_log_cost[OF assms(1), of e "foldl log_cost db es"] by simp
qed

section \<open>Lemmas: the items table\<close>

lemma traverse_list_all2:
  "traverse f xs = Inr ys \<Longrightarrow> list_all2 (\<lambda>x y. f x = Inr y) xs ys"
  by (induction xs arbitrary: ys) (auto split: sum.splits)

lemma traverse_map_Inr:
  "\<forall>x \<in> set xs. f (g x) = Inr x \<Longrightarrow> traverse f (map g xs) = Inr xs"
  by (induction xs) auto

lemma list_all2_map_eq:
  "list_all2 (\<lambda>x y. f x = g y) xs ys \<Longrightarrow> map f xs = map g ys"
  by (induction rule: list_all2_induct) auto

lemma list_all2_set2:
  "list_all2 P xs ys \<Longrightarrow> y \<in> set ys \<Longrightarrow> \<exists>x \<in> set xs. P x y"
  by (induction rule: list_all2_induct) auto

lemma row_to_item_url: "row_to_item r = Inr i \<Longrightarrow> source_url i = row_source_url r"
  by (auto simp: row_to_item_def split: sum.splits option.splits if_splits)

lemma EntityType_of_value [simp]: "EntityType_of (JStr (EntityType_value t)) = Some t"
  by (cases t) (simp_all add: EntityType_of_def)

lemma EntityRole_of_value [simp]: "EntityRole_of (JStr (EntityRole_value r)) = Some r"
  by (cases r) (simp_all add: EntityRole_of_def)

lemma SourceType_of_value [simp]: "SourceType_of (JStr (SourceType_value t)) = Some t"
  by (cases t) (simp_all add: SourceType_of_def)

lemma list_all_is_JStr [simp]: "list_all is_JStr (map JStr xs)"
  by (simp add: list_all_iff)

lemma map_the_JStr [simp]: "map (the_JStr \<circ> JStr) xs = xs"
  by (simp add: comp_def)

lemma row_entity_dump [simp]: "row_entity (entity_dump e) = Inr e"
  by (simp add: entity_dump_def dict_get_def)

lemma row_to_item_item_row:
  assumes "valid_item item"
  shows "row_to_item (item_row item) = Inr item"
  using assms
  by (simp add: row_to_item_def item_row_def valid_item_def traverse_map_Inr
      str_to_dt_def dt_to_str_def fromisoformat_isoformat)

lemma find_append_fresh:
  "\<not> list_ex P xs \<Longrightarrow> P y \<Longrightarrow> find P (xs @ [y]) = Some y"
  by (induction xs) auto

lemma distinct_filter_le1:
  "distinct (map f xs) \<Longrightarrow> length (filter (\<lambda>x. f x = u) xs) \<le> 1"
proof (induction xs)
  case Nil
  then show ?case by simp
next
  case (Cons a xs)
  show ?case
  proof (cases "f a = u")
    case True
    with Cons.prems have "filter (\<lambda>x. f x = u) xs = []"
      by (auto simp: filter_empty_conv image_iff)
    then show ?thesis using True by simp
  next
    case False
    then show ?thesis using Cons by simp
  qed
qed

lemma distinct_map_sort_key: "distinct (map f (sort_key k xs)) = distinct (map f xs)"
  by (simp add: distinct_map)

lemma distinct_map_take: "distinct (map f xs) \<Longrightarrow> distinct (map f (take n xs))"
  by (simp add: distinct_take take_map[symmetric])

lemma distinct_sql_limit: "distinct (map f xs) \<Longrightarrow> distinct (map f (sql_limit n xs))"
  by (simp add: sql_limit_def distinct_map_take)

lemma distinct_order: "distinct (map f (order_by_published_at_desc xs)) = distinct (map f xs)"
  by (simp add: order_by_published_at_desc_def rev_map[symmetric] distinct_map_sort_key
      del: rev_map)

lemma set_sql_limit: "set (sql_limit n xs) \<subseteq> set xs"
  by (auto simp: sql_limit_def dest: in_set_takeD)

lemma set_order [simp]: "set (order_by_published_at_desc xs) = set xs"
  by (simp add: order_by_published_at_desc_def)

lemma get_items_selected:
  "get_items db since limit stype = traverse row_to_item (selected_rows db since limit stype)"
  by (simp add: get_items_def selected_rows_def Let_def)

lemma selected_rows_props:
  assumes "distinct (map row_source_url (items db))"
  shows "distinct (map row_source_url (selected_rows db since limit stype))"
    and "set (selected_rows db since limit stype) \<subseteq> set (items db)"
  using assms set_sql_limit
  by (auto simp: selected_rows_def Let_def distinct_map_filter distinct_order
      intro!: distinct_sql_limit split: option.splits dest!: subsetD[OF set_sql_limit])

lemma get_items_rows:
  assumes "get_items db since limit stype = Inr res"
  shows "list_all2 (\<lambda>r i. row_to_item r = Inr i) (selected_rows db since limit stype) res"
  by (rule traverse_list_all2) (use assms in \<open>simp add: get_items_selected\<close>)

lemma get_items_one_per_url:
  assumes "get_items db since limit stype = Inr res"
    and d: "distinct (map row_source_url (items db))"
  shows "length (filter (\<lambda>i. source_url i = u) res) \<le> 1"
proof -
  let ?rows = "selected_rows db since limit stype"
  have "list_all2 (\<lambda>r i. row_source_url r = source_url i) ?rows res"
    by (rule list_all2_mono[OF get_items_rows[OF assms(1)]]) (simp add: row_to_item_url)
  then have "map row_source_url ?rows = map source_url res"
    by (rule list_all2_map_eq)
  with selected_rows_props(1)[OF d, of since limit stype] have "distinct (map source_url res)"
    by simp
  then show ?thesis by (rule distinct_filter_le1)
qed

lemma get_items_from_rows:
  assumes "get_items db since limit stype = Inr res"
    and d: "distinct (map row_source_url (items db))"
    and "i \<in> set res"
  shows "\<exists>r \<in> set (items db). row_source_url r = source_url i \<and> row_to_item r = Inr i"
proof -
  from list_all2_set2[OF get_items_rows[OF assms(1)] assms(3)]
  obtain r where r: "r \<in> set (selected_rows db since limit stype)" "row_to_item r = Inr i"
    by blast
  from r(1) selected_rows_props(2)[OF d, of since limit stype] have "r \<in> set (items db)"
    by blast
  with r(2) row_to_item_url[OF r(2)] show ?thesis by auto
qed

lemma ex_db_insert: "insert_item empty_store (ex_item ''a'' ex_url) = (None, ex_db)"
  by (simp add: insert_item_def empty_store_def ex_db_def)

lemma ex_db_facts:
  "item_url_exists ex_db ex_url" "schema_ok ex_db" "\<not> item_url_exists ex_db ex_other_url"
  by (simp_all add: ex_db_def item_url_exists_def schema_ok_def empty_store_def item_row_def
      ex_item_def ex_url_def ex_other_url_def)

lemma ex_get_items: "get_items ex_db None 50 None = Inr [ex_item ''a'' ex_url]"
  by (simp add: get_items_def ex_db_def empty_store_def sql_limit_def
      order_by_published_at_desc_def row_to_item_item_row[OF valid_ex_item]
      item_row_def[of "ex_item ''a'' ex_url", THEN arg_cong[where f=row_archived]])

lemma deduplicate_loop_filter:
  "deduplicate_loop xs store acc
     = acc @ filter (\<lambda>i. \<not> item_url_exists store (raw_source_url i)) xs"
  by (induction xs arbitrary: acc) auto

section \<open>Lemmas: the vector store\<close>

lemma scroll_loop_all:
  "scroll_loop pts offset ids vectors
     = (ids @ map pt_id (drop offset pts), vectors @ map pt_vector (drop offset pts))"
proof (induction pts offset ids vectors rule: scroll_loop.induct)
  case (1 pts offset ids vectors)
  show ?case
  proof (cases "offset + 1000 < length pts")
    case True
    have d: "take 1000 (drop offset pts) @ drop (offset + 1000) pts = drop offset pts"
      by (metis add.commute append_take_drop_id drop_drop)
    have m: "map f (take 1000 (drop offset pts)) @ map f (drop (offset + 1000) pts) = map f (drop offset pts)" for f :: "Point \<Rightarrow> 'b"
      using arg_cong[OF d, of "map f"] by simp
    from True have s: "snd (scroll pts 1000 offset) = Some (offset + 1000)"
      by (simp add: scroll_def)
    have ih: "scroll_loop pts (offset + 1000) (ids @ map pt_id (take 1000 (drop offset pts)))
        (vectors @ map pt_vector (take 1000 (drop offset pts)))
      = (ids @ map pt_id (drop offset pts), vectors @ map pt_vector (drop offset pts))"
      using "1.IH"[OF refl refl refl s] by (simp add: scroll_def m)
    show ?thesis
      by (subst scroll_loop.simps) (simp add: ih scroll_def Let_def True)
  next
    case False
    then show ?thesis
      by (subst scroll_loop.simps) (simp add: scroll_def Let_def)
  qed
qed

lemma get_all_vectors_all:
  "get_all_vectors vs since =
     (let matching = (case since of None \<Rightarrow> vs
                      | Some s \<Rightarrow> if s = [] then vs else filter (matches_since s) vs)
      in (map pt_id matching, map pt_vector matching))"
  by (simp add: get_all_vectors_def scroll_loop_all Let_def)

section \<open>Lemmas: cluster matching\<close>


lemma traverse_map_projr:
  "traverse f xs = Inr ys \<Longrightarrow> ys = map (\<lambda>x. projr (f x)) xs"
  by (induction xs arbitrary: ys) (auto split: sum.splits)










lemma row_to_cluster_id: "row_to_cluster r = Inr c \<Longrightarrow> nc_id c = crow_id r"
  by (auto simp: row_to_cluster_def split: sum.splits option.splits)

lemma traverse_cluster_ids:
  "traverse row_to_cluster rows = Inr cs \<Longrightarrow> map nc_id cs = map crow_id rows"
  by (induction rows arbitrary: cs) (auto split: sum.splits simp: row_to_cluster_id)

lemma active_clusters_distinct:
  assumes "schema_ok db" "get_active_clusters db = Inr prevs"
  shows "distinct (map nc_id prevs)"
proof -
  let ?rows = "rev (sort_key crow_item_count
       (filter (\<lambda>r. crow_status r = ''emerging'' \<or> crow_status r = ''active'') (clusters db)))"
  have "map nc_id prevs = map crow_id ?rows"
    using assms(2) unfolding get_active_clusters_def by (rule traverse_cluster_ids)
  moreover have "distinct (map crow_id ?rows)"
    using assms(1)
    by (simp add: schema_ok_def rev_map[symmetric] distinct_map distinct_map_filter inj_on_def
        del: rev_map) 
  ultimately show ?thesis by simp
qed



lemma valid_ex_window: "valid_datetime ex_window_start"
  by (simp add: valid_datetime_def ex_window_start_def days_in_month_def)

lemma ClusterStatus_of_value [simp]: "ClusterStatus_of (ClusterStatus_value s) = Some s"
  by (cases s) (simp_all add: ClusterStatus_of_def)

lemma traverse_validate_float [simp]: "traverse validate_float (map JFloat xs) = Inr xs"
  by (simp add: traverse_map_Inr)

lemma traverse_validate_count [simp]:
  "traverse validate_count (map (\<lambda>kv. (fst kv, JInt (snd kv))) d) = Inr d"
  by (simp add: traverse_map_Inr)











lemma ex_matches: "matches_since (isoformat ex_window_start) (ex_point p)"
  by (simp add: matches_since_def ex_point_def fromisoformat_isoformat[OF valid_ex_now(1)]
      fromisoformat_isoformat[OF valid_ex_window])
    (simp add: dt_key_def ex_now_def ex_window_start_def)

section \<open>The claims\<close>

subsection \<open>C2: a second insert with a stored URL\<close>

text \<open>
  Claim C2. When the store already holds a row with the URL of the item (the store meeting
  the key constraints of its schema), \<open>insert_item\<close> raises \<open>IntegrityError\<close> and the store
  after the call is the store before it; on that store \<open>item_url_exists\<close> of the URL is
  true, and whatever the arguments of \<open>get_items\<close>, its result holds at most one item with
  that URL, and such an item is the conversion of a row that was stored before the call.
\<close>

theorem insert_item_duplicate_url:
  assumes "item_url_exists db (source_url item)" and "schema_ok db"
  shows "insert_item db item = (Some IntegrityError, db)
     \<and> item_url_exists (snd (insert_item db item)) (source_url item)
     \<and> (\<forall>since limit stype res.
          get_items (snd (insert_item db item)) since limit stype = Inr res \<longrightarrow>
            length (filter (\<lambda>i. source_url i = source_url item) res) \<le> 1
            \<and> (\<forall>i \<in> set res. source_url i = source_url item \<longrightarrow>
                 (\<exists>r \<in> set (items db). row_source_url r = source_url item
                    \<and> row_to_item r = Inr i)))"
proof -
  have ins: "insert_item db item = (Some IntegrityError, db)"
    using assms(1) by (auto simp: insert_item_def item_url_exists_def list_ex_iff)
  have d: "distinct (map row_source_url (items db))"
    using assms(2) by (simp add: schema_ok_def)
  have g: "length (filter (\<lambda>i. source_url i = source_url item) res) \<le> 1
            \<and> (\<forall>i \<in> set res. source_url i = source_url item \<longrightarrow>
                 (\<exists>r \<in> set (items db). row_source_url r = source_url item
                    \<and> row_to_item r = Inr i))"
    if "get_items db since limit stype = Inr res" for since limit stype res
    using get_items_one_per_url[OF that d, of "source_url item"] get_items_from_rows[OF that d]
    by metis
  have snd: "snd (insert_item db item) = db" by (simp add: ins)
  show ?thesis unfolding snd using ins g assms(1) by blast
qed

text \<open>
  The scenario of the test suite: the store holds item \<open>a\<close>; inserting item \<open>b\<close> with the
  same URL raises, and \<open>get_items\<close> returns the one row.
\<close>

theorem insert_item_duplicate_url_witness:
  "item_url_exists ex_db (source_url (ex_item ''b'' ex_url)) \<and> schema_ok ex_db
   \<and> insert_item ex_db (ex_item ''b'' ex_url) = (Some IntegrityError, ex_db)
   \<and> get_items ex_db None 50 None = Inr [ex_item ''a'' ex_url]"
  using insert_item_duplicate_url[of ex_db "ex_item ''b'' ex_url"] ex_db_facts ex_get_items
  by (simp add: ex_item_def)

subsection \<open>C4: the cost of a day\<close>

text \<open>
  Claim C4. \<open>get_daily_cost\<close> at \<open>t\<close> should be the sum of \<open>cost_usd\<close> over the entries of
  the UTC calendar day of \<open>t\<close>, so that three entries of 0.01, 0.02 and 0.03 logged at
  \<open>now\<close> give 0.06 at \<open>now\<close>. The upper bound of the query is the text of 23:59:59 with
  the microsecond of \<open>day_start\<close>, zero: lemma \<open>get_daily_cost_foldl\<close> shows that the sum is
  over \<open>in_query_window\<close>, which ends at 23:59:59.000000. At an instant in the last second's
  fraction the three entries are on the day of \<open>now\<close> and sum to 0.06, and
  \<open>get_daily_cost\<close> at \<open>now\<close> is 0.
\<close>

theorem get_daily_cost_last_second:
  "valid_datetime ex_late
   \<and> in_day_window ex_late (ce_timestamp (ex_cost (1/100) ex_late))
   \<and> in_day_window ex_late (ce_timestamp (ex_cost (2/100) ex_late))
   \<and> in_day_window ex_late (ce_timestamp (ex_cost (3/100) ex_late))
   \<and> sum_list (map ce_cost_usd
         [ex_cost (1/100) ex_late, ex_cost (2/100) ex_late, ex_cost (3/100) ex_late]) = 6 / 100
   \<and> get_daily_cost (foldl log_cost empty_store
         [ex_cost (1/100) ex_late, ex_cost (2/100) ex_late, ex_cost (3/100) ex_late]) ex_late
       = 0"
proof -
  let ?es = "[ex_cost (1/100) ex_late, ex_cost (2/100) ex_late, ex_cost (3/100) ex_late]"
  have v: "valid_datetime ex_late"
    by (simp add: valid_datetime_def ex_late_def days_in_month_def)
  have vs: "\<forall>e \<in> set ?es. valid_datetime (ce_timestamp e)"
    using v by (simp add: ex_cost_def)
  have out: "\<not> in_query_window ex_late ex_late"
    by (simp add: in_query_window_def ex_late_def)
  have "get_daily_cost empty_store ex_late = 0"
    by (simp add: get_daily_cost_def empty_store_def)
  then have "get_daily_cost (foldl log_cost empty_store ?es) ex_late = 0"
    using get_daily_cost_foldl[OF v vs, of empty_store] out by (simp add: ex_cost_def)
  then show ?thesis
    using v by (simp add: in_day_window_def ex_cost_def)
qed

subsection \<open>C5: insert, then get\<close>

text \<open>
  Claim C5 as stated fails when the id of the item is already stored under another URL:
  the primary key rejects the insert and \<open>get_item\<close> returns the older item.
\<close>

theorem insert_get_item_id_clash:
  "\<not> item_url_exists ex_db (source_url (ex_item ''a'' ex_other_url))
   \<and> fst (insert_item ex_db (ex_item ''a'' ex_other_url)) = Some IntegrityError
   \<and> get_item (snd (insert_item ex_db (ex_item ''a'' ex_other_url)))
        (item_id (ex_item ''a'' ex_other_url)) = Inr (Some (ex_item ''a'' ex_url))
   \<and> ex_item ''a'' ex_url \<noteq> ex_item ''a'' ex_other_url"
  using ex_db_facts(3) row_to_item_item_row[OF valid_ex_item, of "''a''" ex_url]
  by (simp add: insert_item_def get_item_def ex_db_def empty_store_def ex_item_def ex_url_def
      ex_other_url_def item_row_def)

text \<open>
  Claim C5, amended. For every \<open>EnrichedItem\<close> (a validated one: sentiment in [-1, 1],
  valid datetimes) of which neither the URL nor the id is stored yet, \<open>insert_item\<close>
  succeeds and \<open>get_item\<close> by its id then returns an item equal to the input in every
  field: entities with name, type, role and aliases, datetimes, sentiment, claims, topic
  tags, cost and cluster fields.
\<close>

theorem insert_get_item_roundtrip:
  assumes "valid_item item"
    and "\<not> item_url_exists db (source_url item)"
    and "\<not> list_ex (\<lambda>r. row_id r = item_id item) (items db)"
  shows "fst (insert_item db item) = None
       \<and> get_item (snd (insert_item db item)) (item_id item) = Inr (Some item)"
proof -
  have ins: "insert_item db item = (None, db\<lparr>items := items db @ [item_row item]\<rparr>)"
    using assms(2,3) by (auto simp: insert_item_def item_url_exists_def list_ex_iff)
  have "find (\<lambda>r. row_id r = item_id item) (items db @ [item_row item]) = Some (item_row item)"
    by (rule find_append_fresh[OF assms(3)]) (simp add: item_row_def)
  then show ?thesis
    by (simp add: ins get_item_def row_to_item_item_row[OF assms(1)])
qed

theorem insert_get_item_roundtrip_witness:
  "valid_item (ex_item ''b'' ex_other_url)
   \<and> \<not> item_url_exists ex_db (source_url (ex_item ''b'' ex_other_url))
   \<and> \<not> list_ex (\<lambda>r. row_id r = item_id (ex_item ''b'' ex_other_url)) (items ex_db)
   \<and> get_item (snd (insert_item ex_db (ex_item ''b'' ex_other_url))) ''b''
       = Inr (Some (ex_item ''b'' ex_other_url))"
proof -
  have h1: "valid_item (ex_item ''b'' ex_other_url)" by (rule valid_ex_item)
  have h2: "\<not> item_url_exists ex_db (source_url (ex_item ''b'' ex_other_url))"
    using ex_db_facts(3) by (simp add: ex_item_def)
  have h3: "\<not> list_ex (\<lambda>r. row_id r = item_id (ex_item ''b'' ex_other_url)) (items ex_db)"
    by (simp add: ex_db_def empty_store_def item_row_def ex_item_def)
  from insert_get_item_roundtrip[OF h1 h2 h3] h1 h2 h3 show ?thesis by (simp add: ex_item_def)
qed

subsection \<open>C7: an entity of unknown type or role\<close>

text \<open>
  Claim C7. When the \<open>entities\<close> array of the reply holds an entity object \<open>e\<close> whose type
  or role is outside the enums, between siblings \<open>xs\<close> and \<open>ys\<close>, the parser returns what
  it returns for the same reply without \<open>e\<close> (\<open>data'\<close> is \<open>data\<close> with \<open>e\<close> removed from the
  array): the same summary, claims, framing, sentiment and topic tags, and the entities
  of the siblings; when every sibling builds an entity, the entity loop returns exactly
  the siblings' entities, in order.
\<close>

theorem parse_drops_unknown_entity:
  assumes bad: "unknown_type_or_role e"
    and ents: "map_of data ''entities'' = Some (JArr (xs @ e # ys))"
    and rest: "map_of data' = (map_of data)(''entities'' \<mapsto> JArr (xs @ ys))"
  shows "parse_enrichment_data fos (JObj data) = parse_enrichment_data fos (JObj data')
       \<and> ((\<forall>s \<in> set (xs @ ys). \<exists>ent. build_entity s = Inr ent) \<longrightarrow>
            entity_loop (xs @ e # ys) [] = Inr (map (\<lambda>s. projr (build_entity s)) (xs @ ys)))"
proof -
  from unknown_caught[OF bad]
  obtain err where e: "build_entity e = Inl err" "entity_error_caught err"
    by blast
  have drop: "entity_loop (xs @ e # ys) [] = entity_loop (xs @ ys) []"
    by (rule entity_loop_drop[OF e])
  have other: "dict_get data' k d = dict_get data k d" if "k \<noteq> ''entities''" for k d
    using that rest by (simp add: dict_get_def)
  have e1: "dict_get data ''entities'' (JArr []) = JArr (xs @ e # ys)"
    using ents by (simp add: dict_get_def)
  have e2: "dict_get data' ''entities'' (JArr []) = JArr (xs @ ys)"
    using rest by (simp add: dict_get_def)
  have "parse_enrichment_data fos (JObj data) = parse_enrichment_data fos (JObj data')"
    by (simp add: e1 e2 drop other cong: sum.case_cong)
  moreover have "(\<forall>s \<in> set (xs @ ys). \<exists>ent. build_entity s = Inr ent) \<longrightarrow>
            entity_loop (xs @ e # ys) [] = Inr (map (\<lambda>s. projr (build_entity s)) (xs @ ys))"
    using entity_loop_all_built[of "xs @ ys" "[]"] drop by simp
  ultimately show ?thesis by blast
qed

text \<open>The test of the suite: \<open>Good\<close> is kept, \<open>Bad\<close> (type \<open>invalid_type\<close>) is dropped.\<close>

theorem parse_drops_unknown_entity_witness:
  "unknown_type_or_role ex_bad
   \<and> map_of (ex_data [ex_good, ex_bad] 0) ''entities'' = Some (JArr ([ex_good] @ ex_bad # []))
   \<and> map_of (ex_data [ex_good] 0)
       = (map_of (ex_data [ex_good, ex_bad] 0))(''entities'' \<mapsto> JArr ([ex_good] @ []))
   \<and> parse_enrichment_data (\<lambda>s. None) (JObj (ex_data [ex_good, ex_bad] 0)) = Inr \<lparr>er_summary = ''test'',
     er_entities = [\<lparr>name = ''Good'', entity_type = PERSON, role = SUBJECT, aliases = []\<rparr>],
     er_claims = [], er_framing = ''test'', er_sentiment = 0, er_topic_tags = []\<rparr>"
proof -
  have h1: "unknown_type_or_role ex_bad"
    by (simp add: unknown_type_or_role_def ex_bad_def dict_get_def EntityType_of_def)
  have h2: "map_of (ex_data [ex_good, ex_bad] 0) ''entities''
      = Some (JArr ([ex_good] @ ex_bad # []))"
    by (simp add: ex_data_def)
  have h3: "map_of (ex_data [ex_good] 0)
      = (map_of (ex_data [ex_good, ex_bad] 0))(''entities'' \<mapsto> JArr ([ex_good] @ []))"
    by (rule ext) (simp add: ex_data_def)
  from parse_drops_unknown_entity[OF h1 h2 h3, of "\<lambda>s. None"] ex_parse[of "\<lambda>s. None" 0] h1 h2 h3
  show ?thesis by simp
qed

subsection \<open>C8: the sentiment is clamped\<close>

text \<open>
  Claim C8. When the \<open>sentiment\<close> of the reply is a number \<open>x\<close>, the sentiment of the parsed
  \<open>EnrichmentResult\<close> is \<open>x\<close> clamped to [-1, 1]: 5 gives 1, -5 gives -1, and a value inside
  the interval is unchanged.
\<close>

theorem parse_clamps_sentiment:
  assumes "parse_enrichment_data fos (JObj data) = Inr r"
    and "map_of data ''sentiment'' = Some v" and "json_number v = Some x"
  shows "er_sentiment r = max (- 1) (min 1 x)
     \<and> (x = 5 \<longrightarrow> er_sentiment r = 1) \<and> (x = - 5 \<longrightarrow> er_sentiment r = - 1)
     \<and> (- 1 \<le> x \<and> x \<le> 1 \<longrightarrow> er_sentiment r = x)"
proof -
  have "py_float fos v = Inr x"
    using assms(3) by (cases v) simp_all
  then have "py_float fos (dict_get data ''sentiment'' (JFloat 0)) = Inr x"
    using assms(2) by (simp add: dict_get_def)
  then have "er_sentiment r = max (- 1) (min 1 x)"
    using assms(1) by (auto split: sum.splits simp: Let_def)
  then show ?thesis by auto
qed

text \<open>The test of the suite: the reply with sentiment 5.0 parses, with sentiment 1.0.\<close>

theorem parse_clamps_sentiment_witness:
  "parse_enrichment_data (\<lambda>s. None) (JObj (ex_data [] 5)) = Inr \<lparr>er_summary = ''test'',
     er_entities = [], er_claims = [], er_framing = ''test'', er_sentiment = 1,
     er_topic_tags = []\<rparr>
   \<and> map_of (ex_data [] 5) ''sentiment'' = Some (JFloat 5)
   \<and> json_number (JFloat 5) = Some 5
   \<and> er_sentiment \<lparr>er_summary = ''test'',
     er_entities = [], er_claims = [], er_framing = ''test'', er_sentiment = 1,
     er_topic_tags = []\<rparr> = max (- 1) (min 1 5)"
proof -
  have h1: "parse_enrichment_data (\<lambda>s. None) (JObj (ex_data [] 5)) = Inr \<lparr>er_summary = ''test'',
     er_entities = [], er_claims = [], er_framing = ''test'', er_sentiment = 1,
     er_topic_tags = []\<rparr>"
    by (simp add: ex_data_def dict_get_def)
  have h2: "map_of (ex_data [] 5) ''sentiment'' = Some (JFloat 5)" by (simp add: ex_data_def)
  have h3: "json_number (JFloat 5) = Some 5" by simp
  from parse_clamps_sentiment[OF h1 h2 h3] h1 h2 h3 show ?thesis by simp
qed

subsection \<open>C10: deduplication looks at the store only\<close>

text \<open>
  Claim C10. \<open>deduplicate\<close> returns exactly the input items whose URL is the URL of no
  stored row, in input order; it does not compare the items of the batch with each other:
  two items with the same URL, not stored, are both returned.
\<close>

theorem deduplicate_store_only:
  "deduplicate raw_items store
     = filter (\<lambda>i. raw_source_url i \<notin> row_source_url ` set (items store)) raw_items
   \<and> (raw_source_url a = raw_source_url b
        \<and> raw_source_url a \<notin> row_source_url ` set (items store)
      \<longrightarrow> deduplicate [a, b] store = [a, b])"
proof -
  have "item_url_exists store u \<longleftrightarrow> u \<in> row_source_url ` set (items store)" for u
    by (auto simp: item_url_exists_def list_ex_iff)
  then show ?thesis
    by (simp add: deduplicate_def deduplicate_loop_filter)
qed

theorem deduplicate_store_only_witness:
  "raw_source_url (ex_raw ''r1'' ex_url) = raw_source_url (ex_raw ''r2'' ex_url)
   \<and> raw_source_url (ex_raw ''r1'' ex_url) \<notin> row_source_url ` set (items empty_store)
   \<and> deduplicate [ex_raw ''r1'' ex_url, ex_raw ''r2'' ex_url] empty_store
       = [ex_raw ''r1'' ex_url, ex_raw ''r2'' ex_url]"
  using deduplicate_store_only[of "[]" empty_store "ex_raw ''r1'' ex_url" "ex_raw ''r2'' ex_url"]
  by (simp add: ex_raw_def empty_store_def)

subsection \<open>C1: identity is stable over two runs on the same data\<close>



subsection \<open>C3: the cost is logged first\<close>

text \<open>
  Claim C3, amended. When \<open>track_costs\<close> is set, the budget is not used up and the call of
  the language model succeeds, \<open>_process_one\<close> appends the cost entry to the cost log
  whatever happens afterwards; the call that logs the cost is the first call to a store,
  before the insert of the item and before the upsert of the vector (which follow in
  that order when they happen); and when the embedding or the insert fails, the function
  returns \<open>None\<close> with the cost logged and no item added.
\<close>

theorem process_one_cost_logged_first:
  assumes "track_costs settings"
    and "get_daily_cost (w_sqlite w) today < enrichment_daily_budget_usd settings"
    and "llm item = Inr (result, cost_entry)"
  shows "cost_log (w_sqlite (snd (process_one settings llm embedder model_name today item w)))
           = cost_log (log_cost (w_sqlite w) cost_entry)
     \<and> (w_calls (snd (process_one settings llm embedder model_name today item w))
           = w_calls w @ [LogCost cost_entry]
        \<or> w_calls (snd (process_one settings llm embedder model_name today item w))
           = w_calls w @ [LogCost cost_entry,
                InsertItem (build_enriched_item item result cost_entry model_name)]
        \<or> w_calls (snd (process_one settings llm embedder model_name today item w))
           = w_calls w @ [LogCost cost_entry,
                InsertItem (build_enriched_item item result cost_entry model_name),
                UpsertVector (raw_id item)])
     \<and> ((\<exists>err. embedder result = Inl err)
          \<or> fst (insert_item (log_cost (w_sqlite w) cost_entry)
                  (build_enriched_item item result cost_entry model_name)) \<noteq> None
         \<longrightarrow> fst (process_one settings llm embedder model_name today item w) = Inr None
           \<and> items (w_sqlite (snd (process_one settings llm embedder model_name today item w)))
               = items (w_sqlite w))"
proof -
  have p: "process_one settings llm embedder model_name today item w
      = after_enrich settings embedder model_name item result cost_entry w"
    using assms(2,3) by (simp add: process_one_def Let_def)
  have cl: "cost_log (snd (insert_item db i)) = cost_log db" for db i
    by (simp add: insert_item_def)
  have it: "fst (insert_item db i) \<noteq> None \<Longrightarrow> items (snd (insert_item db i)) = items db" for db i
    by (simp add: insert_item_def split: if_splits)
  show ?thesis
    unfolding p using assms(1) cl it
    by (auto simp: after_enrich_def Let_def log_cost_def split: sum.splits option.splits)
qed

text \<open>The embedding fails after a successful reply: the cost is logged, no item is stored.\<close>

theorem process_one_cost_logged_first_witness:
  "track_costs (ex_settings True)
   \<and> get_daily_cost (w_sqlite ex_world) ex_now < enrichment_daily_budget_usd (ex_settings True)
   \<and> ex_llm (ex_raw ''r1'' ex_url) = Inr (ex_result, ex_cost (1 / 1000) ex_now)
   \<and> fst (process_one (ex_settings True) ex_llm (\<lambda>r. Inl BackendError) ''all-MiniLM-L6-v2''
          ex_now (ex_raw ''r1'' ex_url) ex_world) = Inr None
   \<and> cost_log (w_sqlite (snd (process_one (ex_settings True) ex_llm (\<lambda>r. Inl BackendError)
          ''all-MiniLM-L6-v2'' ex_now (ex_raw ''r1'' ex_url) ex_world)))
       = cost_log (log_cost empty_store (ex_cost (1 / 1000) ex_now))
   \<and> items (w_sqlite (snd (process_one (ex_settings True) ex_llm (\<lambda>r. Inl BackendError)
          ''all-MiniLM-L6-v2'' ex_now (ex_raw ''r1'' ex_url) ex_world))) = []"
proof -
  have h1: "track_costs (ex_settings True)" by (simp add: ex_settings_def)
  have h2: "get_daily_cost (w_sqlite ex_world) ex_now < enrichment_daily_budget_usd (ex_settings True)"
    by (simp add: ex_settings_def ex_world_def get_daily_cost_def empty_store_def)
  have h3: "ex_llm (ex_raw ''r1'' ex_url) = Inr (ex_result, ex_cost (1 / 1000) ex_now)"
    by (simp add: ex_llm_def)
  from process_one_cost_logged_first[where llm = ex_llm and item = "ex_raw ''r1'' ex_url"
      and embedder = "\<lambda>r. Inl BackendError" and model_name = "''all-MiniLM-L6-v2''", OF h1 h2 h3]
    h1 h2 h3 show ?thesis
    by (simp add: ex_world_def empty_store_def)
qed

text \<open>
  Claim C3 as stated fails when \<open>settings.enrichment.track_costs\<close> is off: the reply of
  the language model arrives, the item is enriched and stored, and no cost entry is written.
\<close>

theorem process_one_untracked_cost:
  "ex_llm (ex_raw ''r1'' ex_url) = Inr (ex_result, ex_cost (1 / 1000) ex_now)
   \<and> get_daily_cost (w_sqlite ex_world) ex_now < enrichment_daily_budget_usd (ex_settings False)
   \<and> fst (process_one (ex_settings False) ex_llm (\<lambda>r. Inr ex_unit_vector) ''all-MiniLM-L6-v2''
          ex_now (ex_raw ''r1'' ex_url) ex_world)
       = Inr (Some (build_enriched_item (ex_raw ''r1'' ex_url) ex_result (ex_cost (1 / 1000) ex_now)
            ''all-MiniLM-L6-v2''))
   \<and> cost_log (w_sqlite (snd (process_one (ex_settings False) ex_llm (\<lambda>r. Inr ex_unit_vector)
          ''all-MiniLM-L6-v2'' ex_now (ex_raw ''r1'' ex_url) ex_world))) = []
   \<and> w_calls (snd (process_one (ex_settings False) ex_llm (\<lambda>r. Inr ex_unit_vector)
          ''all-MiniLM-L6-v2'' ex_now (ex_raw ''r1'' ex_url) ex_world))
       = [InsertItem (build_enriched_item (ex_raw ''r1'' ex_url) ex_result (ex_cost (1 / 1000) ex_now)
            ''all-MiniLM-L6-v2''), UpsertVector ''r1'']"
  by (simp add: process_one_def after_enrich_def ex_llm_def ex_settings_def ex_world_def
      get_daily_cost_def empty_store_def insert_item_def upsert_item_def ex_unit_vector_def
      VECTOR_SIZE_def Let_def ex_raw_def)

subsection \<open>C6: a window that is too small\<close>

text \<open>
  Claim C6. When the number of vector ids that the scroll of the rolling window returns is
  less than \<open>min_cluster_size\<close> (an empty window with a positive \<open>min_cluster_size\<close> is
  such a case), \<open>run\<close> returns the empty list and the store after the run is the store
  before it: no cluster row is written, no membership is cleared or set, no item is
  updated and no status is changed.
\<close>

theorem run_small_window_no_effect:
  assumes "int (length (fst (get_all_vectors vectors
             (Some (isoformat (env_sub_days env (env_now env) (rolling_window_days config)))))))
           < min_cluster_size config"
  shows "run env config llm vectors db = (Inr [], db)
     \<and> clusters (snd (run env config llm vectors db)) = clusters db
     \<and> cluster_membership (snd (run env config llm vectors db)) = cluster_membership db
     \<and> items (snd (run env config llm vectors db)) = items db"
  using assms by (simp add: run_def Let_def)

text \<open>The test of the suite: two points in the window, \<open>min_cluster_size\<close> three.\<close>

theorem run_small_window_no_effect_witness:
  "length (fst (get_all_vectors [ex_point ''p1'', ex_point ''p2'']
      (Some (isoformat (env_sub_days ex_env (env_now ex_env) (rolling_window_days ex_config)))))) = 2
   \<and> min_cluster_size ex_config = 3
   \<and> run ex_env ex_config None [ex_point ''p1'', ex_point ''p2''] ex_db = (Inr [], ex_db)"
proof -
  have s: "isoformat ex_window_start \<noteq> []" by (simp add: isoformat_def)
  have g: "fst (get_all_vectors [ex_point ''p1'', ex_point ''p2'']
      (Some (isoformat (env_sub_days ex_env (env_now ex_env) (rolling_window_days ex_config)))))
      = [''p1'', ''p2'']"
    by (simp add: get_all_vectors_all ex_env_def s ex_matches) (simp add: ex_point_def)
  have m: "min_cluster_size ex_config = 3" by (simp add: ex_config_def)
  have h: "int (length (fst (get_all_vectors [ex_point ''p1'', ex_point ''p2'']
      (Some (isoformat (env_sub_days ex_env (env_now ex_env) (rolling_window_days ex_config)))))))
      < min_cluster_size ex_config"
    by (simp add: g m)
  from run_small_window_no_effect[OF h, of None ex_db] g m show ?thesis by simp
qed


end
